theory Spec2Isabelle
  imports Main
begin

section \<open>Data model\<close>

text \<open>
  Identifiers are the backend's uuid strings, timestamps the ISO strings produced by
  \<^verbatim>\<open>new Date().toISOString()\<close>. A TypeScript field of type \<^verbatim>\<open>T | null\<close> is a
  \<open>T option\<close>. Record fields carry a prefix where several interfaces of the source use
  the same field name (\<^verbatim>\<open>id\<close>, \<^verbatim>\<open>status\<close>, \<^verbatim>\<open>notes\<close>).
\<close>

type_synonym uuid = string
type_synonym timestamp = string

datatype role = Admin | User

text \<open>\<^verbatim>\<open>interface Profile\<close> of \<^verbatim>\<open>stores/authStore.ts\<close>.\<close>

record profile =
  p_id :: uuid
  p_role :: role
  full_name :: string
  badge_number :: "string option"

text \<open>
  Of the backend client's \<^verbatim>\<open>Session\<close> object the application reads only
  \<^verbatim>\<open>session.user.id\<close>.
\<close>

record session =
  user_id :: uuid

section \<open>Backend tables\<close>

datatype vehicle_status = Available | Assigned | OutOfService

text \<open>
  A row of \<^verbatim>\<open>vehicles\<close>, as the \<^verbatim>\<open>vehicle\<close> property of \<^verbatim>\<open>VehicleModalProps\<close> and
  \<^verbatim>\<open>interface Vehicle\<close> of \<^verbatim>\<open>pages/Vehicles.tsx\<close> declare it.
\<close>

record vehicle =
  v_id :: uuid
  v_unit_number :: string
  v_make :: string
  v_model :: string
  v_year :: int
  v_status :: vehicle_status
  assigned_to :: "uuid option"
  current_location :: "string option"
  v_notes :: "string option"

text \<open>A row of \<^verbatim>\<open>vehicle_status_history\<close> (section 3 of the specification).\<close>

record status_history =
  h_vehicle_id :: uuid
  previous_status :: "vehicle_status option"
  new_status :: vehicle_status
  changed_by :: "uuid option"
  h_notes :: string
  h_created_at :: timestamp

datatype wo_status = Pending | InProgress | Completed | Cancelled

datatype priority = Low | Normal | High | Urgent

text \<open>
  A row of \<^verbatim>\<open>work_orders\<close>: \<^verbatim>\<open>interface WorkOrder\<close> of \<^verbatim>\<open>pages/WorkOrders.tsx\<close>
  without the joined \<^verbatim>\<open>vehicle\<close>, \<^verbatim>\<open>creator\<close> and \<^verbatim>\<open>resolver\<close> objects, and with
  the \<^verbatim>\<open>mileage\<close> column that \<^verbatim>\<open>WorkOrderModal\<close> inserts. The interface types
  \<^verbatim>\<open>work_order_number\<close> as \<^verbatim>\<open>number | null\<close>, and the list's search tests it for null.
\<close>

text \<open>
  Modelled from the spec: the declaration of the \<^verbatim>\<open>work_orders\<close> table is not among the
  sources. The numbers are counted up one by one ("reading the current maximum and
  incrementing"), so a number that the column holds is an integer.
\<close>

record work_order =
  wo_id :: uuid
  wo_vehicle_id :: uuid
  created_by :: uuid
  wo_status :: wo_status
  description :: string
  wo_priority :: priority
  wo_location :: string
  mileage :: string
  resolved_at :: "timestamp option"
  resolved_by :: "uuid option"
  resolution_notes :: "string option"
  created_at :: timestamp
  updated_at :: timestamp
  work_order_number :: "int option"

record db =
  profiles :: "profile list"
  vehicles :: "vehicle list"
  vehicle_status_history :: "status_history list"
  work_orders :: "work_order list"

datatype error = ValidationFailed | NotAuthenticated | PolicyViolation | NotFound

section \<open>Row-level policies (the policy migration)\<close>

datatype table = Profiles | Vehicles | VehicleStatusHistory | WorkOrders

datatype command = Select | Insert | Update | Delete

datatype policy_for = ForAll | For command

text \<open>
  The three expressions the migration uses: \<^verbatim>\<open>true\<close>, \<^verbatim>\<open>is_admin(auth.uid())\<close> and
  \<^verbatim>\<open>auth.uid() = id\<close>.
\<close>

datatype policy_expr = ExprTrue | ExprIsAdmin | ExprOwnRow

record policy =
  pol_name :: string
  on_table :: table
  for_cmd :: policy_for
  pol_expr :: policy_expr

text \<open>
  \<^verbatim>\<open>is_admin(user_id)\<close>: whether \<^verbatim>\<open>profiles\<close> has a row with that id and role
  \<^verbatim>\<open>'admin'\<close>. The function is \<^verbatim>\<open>SECURITY DEFINER\<close>, so it reads the whole table.
\<close>

definition is_admin :: "profile list \<Rightarrow> uuid \<Rightarrow> bool" where
  "is_admin ps uid = list_ex (\<lambda>p. p_id p = uid \<and> p_role p = Admin) ps"

definition policies :: "policy list" where
  "policies =
    [\<lparr>pol_name = ''Users can view their own profile'', on_table = Profiles,
        for_cmd = For Select, pol_expr = ExprOwnRow\<rparr>,
     \<lparr>pol_name = ''Admins can view all profiles'', on_table = Profiles,
        for_cmd = For Select, pol_expr = ExprIsAdmin\<rparr>,
     \<lparr>pol_name = ''Admins can update profiles'', on_table = Profiles,
        for_cmd = For Update, pol_expr = ExprIsAdmin\<rparr>,
     \<lparr>pol_name = ''All authenticated users can view vehicles'', on_table = Vehicles,
        for_cmd = For Select, pol_expr = ExprTrue\<rparr>,
     \<lparr>pol_name = ''Admins can modify vehicles'', on_table = Vehicles,
        for_cmd = ForAll, pol_expr = ExprIsAdmin\<rparr>,
     \<lparr>pol_name = ''All authenticated users can view status history'',
        on_table = VehicleStatusHistory, for_cmd = For Select, pol_expr = ExprTrue\<rparr>,
     \<lparr>pol_name = ''All users can create status history'',
        on_table = VehicleStatusHistory, for_cmd = For Insert, pol_expr = ExprTrue\<rparr>,
     \<lparr>pol_name = ''All authenticated users can view work orders'', on_table = WorkOrders,
        for_cmd = For Select, pol_expr = ExprTrue\<rparr>,
     \<lparr>pol_name = ''All users can create work orders'', on_table = WorkOrders,
        for_cmd = For Insert, pol_expr = ExprTrue\<rparr>,
     \<lparr>pol_name = ''Admins can update work orders'', on_table = WorkOrders,
        for_cmd = For Update, pol_expr = ExprIsAdmin\<rparr>]"

fun eval_expr :: "profile list \<Rightarrow> uuid \<Rightarrow> uuid \<Rightarrow> policy_expr \<Rightarrow> bool" where
  "eval_expr ps uid row_id ExprTrue = True"
| "eval_expr ps uid row_id ExprIsAdmin = is_admin ps uid"
| "eval_expr ps uid row_id ExprOwnRow = (uid = row_id)"

definition applies :: "policy \<Rightarrow> table \<Rightarrow> command \<Rightarrow> bool" where
  "applies pol t c \<longleftrightarrow> on_table pol = t \<and> (for_cmd pol = ForAll \<or> for_cmd pol = For c)"

text \<open>
  Every policy is \<^verbatim>\<open>TO authenticated\<close> and permissive: an operation on a row is let
  through when the caller is signed in (\<^verbatim>\<open>auth.uid()\<close> is not null) and the expression
  of some policy for that table and command holds.
\<close>

text \<open>
  Modelled from the spec: the statements that switch row-level security on for the four
  tables are not among the sources; the rules are "evaluated by the backend on every data
  access", so an operation that no policy lets through is refused.
\<close>

definition permits :: "profile list \<Rightarrow> uuid option \<Rightarrow> table \<Rightarrow> command \<Rightarrow> uuid \<Rightarrow> bool" where
  "permits ps caller t c row_id =
     (case caller of
        None \<Rightarrow> False
      | Some uid \<Rightarrow> list_ex (\<lambda>pol. applies pol t c \<and> eval_expr ps uid row_id (pol_expr pol)) policies)"

section \<open>Backend operations under the policies\<close>

text \<open>
  \<^verbatim>\<open>.update(payload).eq('id', x)\<close> rewrites every row with that id which the policy
  lets the caller update; a row the policy hides is skipped without an error.
  \<^verbatim>\<open>.delete().eq('id', x)\<close> behaves alike. \<^verbatim>\<open>.insert([row])\<close> fails when the policy
  refuses the new row. Requests reach the backend: a refusal by the policies is the only
  failure of a request that the model has.
\<close>

definition update_rows :: "('r \<Rightarrow> bool) \<Rightarrow> ('r \<Rightarrow> 'r) \<Rightarrow> 'r list \<Rightarrow> 'r list" where
  "update_rows sel f rows = map (\<lambda>r. if sel r then f r else r) rows"

definition update_vehicle :: "uuid option \<Rightarrow> uuid \<Rightarrow> (vehicle \<Rightarrow> vehicle) \<Rightarrow> db \<Rightarrow> db" where
  "update_vehicle caller vid f d =
     d\<lparr>vehicles := update_rows
          (\<lambda>r. v_id r = vid \<and> permits (profiles d) caller Vehicles Update (v_id r)) f
          (vehicles d)\<rparr>"

definition delete_vehicle :: "uuid option \<Rightarrow> uuid \<Rightarrow> db \<Rightarrow> db" where
  "delete_vehicle caller vid d =
     d\<lparr>vehicles := filter
          (\<lambda>r. \<not> (v_id r = vid \<and> permits (profiles d) caller Vehicles Delete (v_id r)))
          (vehicles d)\<rparr>"

definition insert_vehicle :: "uuid option \<Rightarrow> vehicle \<Rightarrow> db \<Rightarrow> error + db" where
  "insert_vehicle caller row d =
     (if permits (profiles d) caller Vehicles Insert (v_id row)
      then Inr (d\<lparr>vehicles := vehicles d @ [row]\<rparr>)
      else Inl PolicyViolation)"

definition insert_status_history :: "uuid option \<Rightarrow> status_history \<Rightarrow> db \<Rightarrow> error + db" where
  "insert_status_history caller row d =
     (if permits (profiles d) caller VehicleStatusHistory Insert (h_vehicle_id row)
      then Inr (d\<lparr>vehicle_status_history := vehicle_status_history d @ [row]\<rparr>)
      else Inl PolicyViolation)"

definition update_work_order :: "uuid option \<Rightarrow> uuid \<Rightarrow> (work_order \<Rightarrow> work_order) \<Rightarrow> db \<Rightarrow> db" where
  "update_work_order caller wid f d =
     d\<lparr>work_orders := update_rows
          (\<lambda>r. wo_id r = wid \<and> permits (profiles d) caller WorkOrders Update (wo_id r)) f
          (work_orders d)\<rparr>"

definition insert_work_order :: "uuid option \<Rightarrow> work_order \<Rightarrow> db \<Rightarrow> error + db" where
  "insert_work_order caller row d =
     (if permits (profiles d) caller WorkOrders Insert (wo_id row)
      then Inr (d\<lparr>work_orders := work_orders d @ [row]\<rparr>)
      else Inl PolicyViolation)"

definition select_work_orders :: "uuid option \<Rightarrow> db \<Rightarrow> work_order list" where
  "select_work_orders caller d =
     filter (\<lambda>r. permits (profiles d) caller WorkOrders Select (wo_id r)) (work_orders d)"

text \<open>
  Modelled from the spec: the database function \<^verbatim>\<open>update_vehicle_status\<close>, called by
  \<^verbatim>\<open>VehicleModal\<close> through \<^verbatim>\<open>supabase.rpc\<close>, is not among the sources. Section 4.2 says
  that a status change "appends exactly one History Entry capturing (old status, new
  status, actor = current principal, notes)", and section 6 calls it "a remote-procedure
  call for atomic status updates": it sets the vehicle's status and appends the entry,
  with the caller's rights.
\<close>

definition update_vehicle_status ::
    "uuid option \<Rightarrow> timestamp \<Rightarrow> uuid \<Rightarrow> vehicle_status \<Rightarrow> string \<Rightarrow> db \<Rightarrow> error + db" where
  "update_vehicle_status caller now vid new notes d =
     (case find (\<lambda>v. v_id v = vid) (vehicles d) of
        None \<Rightarrow> Inl NotFound
      | Some v \<Rightarrow>
          insert_status_history caller
            \<lparr>h_vehicle_id = vid, previous_status = Some (v_status v), new_status = new,
               changed_by = caller, h_notes = notes, h_created_at = now\<rparr>
            (update_vehicle caller vid (\<lambda>r. r\<lparr>v_status := new\<rparr>) d))"

section \<open>The authentication store (stores/authStore.ts)\<close>

record AuthState =
  session :: "session option"
  profile :: "profile option"
  isAdmin :: bool

definition useAuthStore :: AuthState where
  "useAuthStore = \<lparr>session = None, profile = None, isAdmin = False\<rparr>"

definition setSession :: "session option \<Rightarrow> AuthState \<Rightarrow> AuthState" where
  "setSession s st = st\<lparr>session := s\<rparr>"

text \<open>
  \<^verbatim>\<open>profile?.role === 'admin'\<close>: the optional chain gives \<^verbatim>\<open>undefined\<close> on a
  null profile, and \<^verbatim>\<open>undefined === 'admin'\<close> is false.
\<close>

definition setProfile :: "profile option \<Rightarrow> AuthState \<Rightarrow> AuthState" where
  "setProfile p st =
     st\<lparr>profile := p,
        isAdmin := (case p of None \<Rightarrow> False | Some q \<Rightarrow> p_role q = Admin)\<rparr>"

text \<open>
  \<^verbatim>\<open>signOut\<close> awaits the backend's sign-out, which reports a failure in its result
  object and does not throw, and then resets the three fields.
\<close>

definition signOut :: "AuthState \<Rightarrow> AuthState" where
  "signOut st = st\<lparr>session := None, profile := None, isAdmin := False\<rparr>"

text \<open>The invariant relating the cached flag to the cached profile.\<close>

definition admin_flag_ok :: "AuthState \<Rightarrow> bool" where
  "admin_flag_ok st \<longleftrightarrow>
     (isAdmin st \<longleftrightarrow> (case profile st of None \<Rightarrow> False | Some q \<Rightarrow> p_role q = Admin))"

section \<open>The signed-in caller\<close>

text \<open>
  The backend client signs its requests with the session that the store holds, so
  \<^verbatim>\<open>auth.uid()\<close> in a policy and \<^verbatim>\<open>(await supabase.auth.getUser()).data.user?.id\<close> in
  the client are both the user id of that session, and absent without one.
\<close>

definition auth_uid :: "AuthState \<Rightarrow> uuid option" where
  "auth_uid st = (case session st of None \<Rightarrow> None | Some s \<Rightarrow> Some (user_id s))"

text \<open>\<^verbatim>\<open>session?.user?.id || null\<close>: an empty id is falsy and gives null as well.\<close>

definition session_user_id :: "AuthState \<Rightarrow> uuid option" where
  "session_user_id st =
     (case session st of
        None \<Rightarrow> None
      | Some s \<Rightarrow> if user_id s = [] then None else Some (user_id s))"

text \<open>
  Modelled from the spec: the table declarations are not among the sources, so the value
  of a column that an insert leaves out comes from the specification. A created work
  order has "status = pending", and its resolution fields are "populated only on
  transition"; a vehicle's side fields are null unless its status requires them.
\<close>

definition work_orders_status_default :: wo_status where
  "work_orders_status_default = Pending"

definition column_default_null :: "'a option" where
  "column_default_null = None"

section \<open>The work-order page (pages/WorkOrders.tsx)\<close>

text \<open>The parameter type of \<^verbatim>\<open>handleUpdateStatus\<close>.\<close>

datatype newStatus = in_progress | completed | cancelled

fun status_of :: "newStatus \<Rightarrow> wo_status" where
  "status_of in_progress = InProgress"
| "status_of completed = Completed"
| "status_of cancelled = Cancelled"

text \<open>
  The object passed to \<^verbatim>\<open>.update\<close> by \<^verbatim>\<open>handleUpdateStatus\<close>, applied to a row. A
  property whose value is \<^verbatim>\<open>undefined\<close> (the user id when nobody is signed in) is left
  out of the request, so the column keeps its value. \<^verbatim>\<open>updateNotes || null\<close> is null
  for the empty string.
\<close>

definition status_update ::
    "timestamp \<Rightarrow> uuid option \<Rightarrow> newStatus \<Rightarrow> string \<Rightarrow> work_order \<Rightarrow> work_order" where
  "status_update now uid newStatus updateNotes r =
     r\<lparr>wo_status := status_of newStatus,
       resolved_at := (if newStatus = completed then Some now else None),
       resolved_by := (if newStatus = completed
                       then (case uid of Some u \<Rightarrow> Some u | None \<Rightarrow> resolved_by r)
                       else None),
       resolution_notes := (if updateNotes = [] then None else Some updateNotes),
       updated_at := now\<rparr>"

definition handleUpdateStatus ::
    "AuthState \<Rightarrow> timestamp \<Rightarrow> work_order option \<Rightarrow> string \<Rightarrow> newStatus \<Rightarrow> db \<Rightarrow> db" where
  "handleUpdateStatus st now selectedWorkOrder updateNotes newStatus d =
     (case selectedWorkOrder of
        None \<Rightarrow> d
      | Some sel \<Rightarrow>
          update_work_order (auth_uid st) (wo_id sel)
            (status_update now (auth_uid st) newStatus updateNotes) d)"

text \<open>The object passed to \<^verbatim>\<open>.update\<close> by \<^verbatim>\<open>handleCompleteWorkOrder\<close>.\<close>

definition complete_update :: "timestamp \<Rightarrow> uuid option \<Rightarrow> work_order \<Rightarrow> work_order" where
  "complete_update now uid r =
     r\<lparr>wo_status := Completed, resolved_at := Some now, resolved_by := uid,
       updated_at := now\<rparr>"

text \<open>
  \<^verbatim>\<open>handleCompleteWorkOrder\<close>: the update of the work order, then the update of the
  linked vehicle, which sets \<^verbatim>\<open>status\<close> and no other column.
\<close>

definition handleCompleteWorkOrder :: "AuthState \<Rightarrow> timestamp \<Rightarrow> work_order \<Rightarrow> db \<Rightarrow> db" where
  "handleCompleteWorkOrder st now workOrder d =
     update_vehicle (auth_uid st) (wo_vehicle_id workOrder) (\<lambda>v. v\<lparr>v_status := Available\<rparr>)
       (update_work_order (auth_uid st) (wo_id workOrder)
          (complete_update now (session_user_id st)) d)"

text \<open>
  The state of the page that its handlers and buttons use: the list fetched last, the
  order captured when the status dialog was opened, whether the dialog is open, and the
  notes typed in it. The fields carry the prefix \<open>pg\<close>. Of the other state,
  \<^verbatim>\<open>loading\<close> and \<^verbatim>\<open>updating\<close> are true only while a handler runs, \<^verbatim>\<open>error\<close> stays
  null as long as requests do not fail, and the three filters choose which of the fetched
  orders are shown; with the initial filters all of them are.
\<close>

record WorkOrdersPage =
  pg_workOrders :: "work_order list"
  pg_selectedWorkOrder :: "work_order option"
  pg_isUpdateModalOpen :: bool
  pg_updateNotes :: string

text \<open>
  \<^verbatim>\<open>fetchWorkOrders\<close> replaces the list by the rows the caller may read. The query sorts
  them by creation time, newest first; the order of the list plays no part in what the
  buttons do, and the model keeps the order of the table.
\<close>

definition fetchWorkOrders :: "AuthState \<Rightarrow> db \<Rightarrow> WorkOrdersPage \<Rightarrow> WorkOrdersPage" where
  "fetchWorkOrders st d pg = pg\<lparr>pg_workOrders := select_work_orders (auth_uid st) d\<rparr>"

text \<open>The page when it is mounted: the initial state, and the first fetch.\<close>

definition mount :: "AuthState \<Rightarrow> db \<Rightarrow> WorkOrdersPage" where
  "mount st d =
     fetchWorkOrders st d
       \<lparr>pg_workOrders = [], pg_selectedWorkOrder = None, pg_isUpdateModalOpen = False,
        pg_updateNotes = []\<rparr>"

text \<open>
  What the user can do. "Update Status" is rendered on a listed order when
  \<^verbatim>\<open>isAdmin && order.status === 'pending'\<close>; it captures the order and opens the dialog.
  "Complete Work Order" is rendered on a listed order when
  \<^verbatim>\<open>isAdmin && order.status !== 'completed'\<close> and calls \<^verbatim>\<open>handleCompleteWorkOrder(order)\<close>.
  The dialog is rendered when \<^verbatim>\<open>isUpdateModalOpen && selectedWorkOrder\<close>: it has the notes
  box, a button that closes it, and three buttons that call \<^verbatim>\<open>handleUpdateStatus\<close>.
  Both tests of the status read the listed copy of the order, not the table.
\<close>

datatype page_event =
    ClickUpdateStatus work_order
  | ClickCompleteWorkOrder work_order
  | TypeNotes string
  | ClickCancel
  | ClickMark newStatus

definition dialog_rendered :: "WorkOrdersPage \<Rightarrow> bool" where
  "dialog_rendered pg \<longleftrightarrow> pg_isUpdateModalOpen pg \<and> pg_selectedWorkOrder pg \<noteq> None"

fun rendered :: "AuthState \<Rightarrow> WorkOrdersPage \<Rightarrow> page_event \<Rightarrow> bool" where
  "rendered st pg (ClickUpdateStatus order) =
     (order \<in> set (pg_workOrders pg) \<and> isAdmin st \<and> wo_status order = Pending)"
| "rendered st pg (ClickCompleteWorkOrder order) =
     (order \<in> set (pg_workOrders pg) \<and> isAdmin st \<and> wo_status order \<noteq> Completed)"
| "rendered st pg (TypeNotes text) = dialog_rendered pg"
| "rendered st pg ClickCancel = dialog_rendered pg"
| "rendered st pg (ClickMark newStatus) = dialog_rendered pg"

text \<open>
  The effect of an event on the page and the tables. After its update
  \<^verbatim>\<open>handleUpdateStatus\<close> fetches the list, closes the dialog and forgets the order and the
  notes; without a captured order it returns at once. \<^verbatim>\<open>handleCompleteWorkOrder\<close>
  fetches the list after its two updates and leaves the dialog's state alone.
\<close>

fun fire ::
    "AuthState \<Rightarrow> timestamp \<Rightarrow> page_event \<Rightarrow> WorkOrdersPage \<times> db \<Rightarrow> WorkOrdersPage \<times> db" where
  "fire st now (ClickUpdateStatus order) (pg, d) =
     (pg\<lparr>pg_selectedWorkOrder := Some order, pg_isUpdateModalOpen := True\<rparr>, d)"
| "fire st now (ClickCompleteWorkOrder order) (pg, d) =
     (fetchWorkOrders st (handleCompleteWorkOrder st now order d) pg,
      handleCompleteWorkOrder st now order d)"
| "fire st now (TypeNotes text) (pg, d) = (pg\<lparr>pg_updateNotes := text\<rparr>, d)"
| "fire st now ClickCancel (pg, d) =
     (pg\<lparr>pg_isUpdateModalOpen := False, pg_selectedWorkOrder := None, pg_updateNotes := []\<rparr>, d)"
| "fire st now (ClickMark newStatus) (pg, d) =
     (case pg_selectedWorkOrder pg of
        None \<Rightarrow> (pg, d)
      | Some sel \<Rightarrow>
          ((fetchWorkOrders st
              (handleUpdateStatus st now (Some sel) (pg_updateNotes pg) newStatus d) pg)
             \<lparr>pg_isUpdateModalOpen := False, pg_selectedWorkOrder := None, pg_updateNotes := []\<rparr>,
           handleUpdateStatus st now (Some sel) (pg_updateNotes pg) newStatus d))"

text \<open>
  A run of the page: the events in turn, each at its time; an event on something that is
  not rendered does nothing.
\<close>

fun run ::
    "AuthState \<Rightarrow> (timestamp \<times> page_event) list \<Rightarrow> WorkOrdersPage \<times> db \<Rightarrow> WorkOrdersPage \<times> db" where
  "run st [] s = s"
| "run st ((now, ev) # evs) s =
     run st evs (if rendered st (fst s) ev then fire st now ev s else s)"

text \<open>The status of the order with a given id, when the table has one.\<close>

definition status_in :: "db \<Rightarrow> uuid \<Rightarrow> wo_status option" where
  "status_in d wid = map_option wo_status (find (\<lambda>r. wo_id r = wid) (work_orders d))"

section \<open>Creating a work order (components/WorkOrderModal.tsx)\<close>

record wo_formData =
  fd_description :: string
  fd_priority :: priority
  fd_location :: string
  fd_mileage :: string

text \<open>
  A JavaScript number is a double. The numbers that arise here are integers, and the
  infinities that an integer beyond the range of a double is read as.
\<close>

datatype js_number = Finite int | Infinite

text \<open>
  The number of low bits that a natural number loses when it is written with the 53
  significant bits of a double.
\<close>

function significand_shift :: "nat \<Rightarrow> nat" where
  "significand_shift a = (if a < 2 ^ 53 then 0 else Suc (significand_shift (a div 2)))"
  by pat_completeness auto
termination
  by (relation "measure id") auto

declare significand_shift.simps [simp del]

text \<open>
  The double nearest to an integer, with ties going to the even significand; an integer
  whose nearest double would be \<open>2 ^ 1024\<close> or more in magnitude is an infinity.
  This is how a number of a JSON response is read, and how the exact result of an addition
  is rounded.
\<close>

definition round_to_double :: "int \<Rightarrow> js_number" where
  "round_to_double n =
     (let a = nat \<bar>n\<bar>;
          e = significand_shift a;
          q = a div 2 ^ e;
          r = a mod 2 ^ e;
          m = (if 2 * r < 2 ^ e \<or> (2 * r = 2 ^ e \<and> even q) then q else q + 1) * 2 ^ e
      in if 2 ^ 1024 \<le> m then Infinite else Finite (sgn n * int m))"

text \<open>
  \<^verbatim>\<open>x + 1\<close> for \<^verbatim>\<open>x\<close> a number or null: null counts as 0, an infinity stays.
\<close>

fun plus_one :: "js_number option \<Rightarrow> js_number" where
  "plus_one None = Finite 1"
| "plus_one (Some Infinite) = Infinite"
| "plus_one (Some (Finite x)) = round_to_double (x + 1)"

text \<open>A number in the body of a request: JSON has no infinity and writes null.\<close>

fun to_json :: "js_number \<Rightarrow> int option" where
  "to_json (Finite n) = Some n"
| "to_json Infinite = None"

text \<open>
  \<^verbatim>\<open>.select('work_order_number').order('work_order_number', { ascending: false }).limit(1)\<close>:
  the query names no place for nulls, and the database puts them first in a descending
  order.
\<close>

definition order_by_number_desc :: "work_order list \<Rightarrow> work_order list" where
  "order_by_number_desc rows =
     filter (\<lambda>r. work_order_number r = None) rows
     @ rev (sort_key (\<lambda>r. the (work_order_number r))
              (filter (\<lambda>r. work_order_number r \<noteq> None) rows))"

definition lastWorkOrder :: "uuid option \<Rightarrow> db \<Rightarrow> work_order list" where
  "lastWorkOrder caller d = take 1 (order_by_number_desc (select_work_orders caller d))"

text \<open>
  \<^verbatim>\<open>lastWorkOrder && lastWorkOrder.length > 0 ? lastWorkOrder[0].work_order_number : 0\<close>
\<close>

definition lastWorkOrderNumber :: "uuid option \<Rightarrow> db \<Rightarrow> js_number option" where
  "lastWorkOrderNumber caller d =
     (case lastWorkOrder caller d of
        [] \<Rightarrow> Some (Finite 0)
      | r # rest \<Rightarrow> map_option round_to_double (work_order_number r))"

definition newWorkOrderNumber :: "uuid option \<Rightarrow> db \<Rightarrow> js_number" where
  "newWorkOrderNumber caller d = plus_one (lastWorkOrderNumber caller d)"

text \<open>
  \<^verbatim>\<open>handleSubmit\<close> of \<^verbatim>\<open>WorkOrderModal\<close>. The inserted object names seven columns; the
  id, the creation times, the status and the resolution fields are the table's defaults.
\<close>

definition WorkOrderModal_handleSubmit ::
    "AuthState \<Rightarrow> timestamp \<Rightarrow> uuid \<Rightarrow> uuid \<Rightarrow> wo_formData \<Rightarrow> db \<Rightarrow> error option \<times> db" where
  "WorkOrderModal_handleSubmit st now new_id vehicleId formData d =
     (case session_user_id st of
        None \<Rightarrow> (Some NotAuthenticated, d)
      | Some uid \<Rightarrow>
          (case insert_work_order (auth_uid st)
                  \<lparr>wo_id = new_id,
                   wo_vehicle_id = vehicleId,
                   created_by = uid,
                   wo_status = work_orders_status_default,
                   description = fd_description formData,
                   wo_priority = fd_priority formData,
                   wo_location = fd_location formData,
                   mileage = fd_mileage formData,
                   resolved_at = column_default_null,
                   resolved_by = column_default_null,
                   resolution_notes = column_default_null,
                   created_at = now,
                   updated_at = now,
                   work_order_number = to_json (newWorkOrderNumber (auth_uid st) d)\<rparr> d of
             Inl e \<Rightarrow> (Some e, d)
           | Inr d' \<Rightarrow> (None, d')))"

text \<open>
  Work orders created one after another by the same client: each request gives the time,
  the id the backend generates, the vehicle and the form.
\<close>

fun create_all ::
    "AuthState \<Rightarrow> (timestamp \<times> uuid \<times> uuid \<times> wo_formData) list \<Rightarrow> db \<Rightarrow> db" where
  "create_all st [] d = d"
| "create_all st ((now, new_id, vehicleId, formData) # reqs) d =
     create_all st reqs (snd (WorkOrderModal_handleSubmit st now new_id vehicleId formData d))"

definition created_numbers ::
    "AuthState \<Rightarrow> (timestamp \<times> uuid \<times> uuid \<times> wo_formData) list \<Rightarrow> db \<Rightarrow> int option list" where
  "created_numbers st reqs d =
     map work_order_number (drop (length (work_orders d)) (work_orders (create_all st reqs d)))"

text \<open>The numbers that the orders of a table carry.\<close>

definition numbers :: "work_order list \<Rightarrow> int list" where
  "numbers rows = List.map_filter work_order_number rows"

text \<open>
  A table leaves room for \<open>k\<close> more work orders when each of its orders has a number, the
  numbers and \<open>k\<close> are integers that a double holds exactly, and so is every number
  counted up \<open>k\<close> times.
\<close>

definition room_for :: "int \<Rightarrow> work_order list \<Rightarrow> bool" where
  "room_for k rows \<longleftrightarrow>
     k \<le> 2 ^ 53
     \<and> list_all (\<lambda>r. case work_order_number r of
                       None \<Rightarrow> False
                     | Some n \<Rightarrow> - (2 ^ 53) < n \<and> n + k \<le> 2 ^ 53) rows"

text \<open>The order of two numbers of the column; null is neither below nor above a number.\<close>

fun number_less :: "int option \<Rightarrow> int option \<Rightarrow> bool" where
  "number_less (Some a) (Some b) = (a < b)"
| "number_less a b = False"

section \<open>The vehicle form (components/VehicleModal.tsx)\<close>

text \<open>The form state: the side fields are strings, empty when nothing is entered.\<close>

record formData =
  f_unit_number :: string
  f_make :: string
  f_model :: string
  f_year :: int
  f_status :: vehicle_status
  f_assigned_to :: string
  f_current_location :: string
  f_notes :: string

text \<open>
  \<^verbatim>\<open>vehicleData\<close>: the form state with the three side fields replaced by null where the
  status does not call for them.
\<close>

record vehicleData =
  vd_unit_number :: string
  vd_make :: string
  vd_model :: string
  vd_year :: int
  vd_status :: vehicle_status
  vd_assigned_to :: "string option"
  vd_current_location :: "string option"
  vd_notes :: "string option"

definition vehicleData :: "formData \<Rightarrow> vehicleData" where
  "vehicleData fd =
     \<lparr>vd_unit_number = f_unit_number fd,
      vd_make = f_make fd,
      vd_model = f_model fd,
      vd_year = f_year fd,
      vd_status = f_status fd,
      vd_assigned_to = (if f_status fd = Assigned then Some (f_assigned_to fd) else None),
      vd_current_location =
        (if f_status fd = OutOfService then Some (f_current_location fd) else None),
      vd_notes = (if f_status fd \<in> set [OutOfService, Assigned] then Some (f_notes fd)
                  else None)\<rparr>"

text \<open>
  \<^verbatim>\<open>handleSubmit\<close> of \<^verbatim>\<open>VehicleModal\<close>, with the \<^verbatim>\<open>vehicle\<close> property present (edit) or
  absent (add). The result is the error caught, if any, and the tables as the requests
  sent so far have left them.
\<close>

definition VehicleModal_handleSubmit ::
    "AuthState \<Rightarrow> timestamp \<Rightarrow> uuid \<Rightarrow> vehicle option \<Rightarrow> formData \<Rightarrow> db \<Rightarrow> error option \<times> db" where
  "VehicleModal_handleSubmit st now new_id vehicle fd d =
     (let vd = vehicleData fd in
      case vehicle of
        Some v \<Rightarrow>
          (let d1 = update_vehicle (auth_uid st) (v_id v)
                      (\<lambda>r. r\<lparr>v_status := vd_status vd,
                               assigned_to := vd_assigned_to vd,
                               current_location := vd_current_location vd,
                               v_notes := vd_notes vd\<rparr>) d in
           if v_status v \<noteq> f_status fd then
             (case update_vehicle_status (auth_uid st) now (v_id v) (f_status fd) (f_notes fd) d1 of
                Inl e \<Rightarrow> (Some e, d1)
              | Inr d2 \<Rightarrow> (None, d2))
           else (None, d1))
      | None \<Rightarrow>
          (case insert_vehicle (auth_uid st)
                  \<lparr>v_id = new_id,
                   v_unit_number = vd_unit_number vd,
                   v_make = vd_make vd,
                   v_model = vd_model vd,
                   v_year = vd_year vd,
                   v_status = vd_status vd,
                   assigned_to = vd_assigned_to vd,
                   current_location = vd_current_location vd,
                   v_notes = vd_notes vd\<rparr> d of
             Inl e \<Rightarrow> (Some e, d)
           | Inr d1 \<Rightarrow>
               (case update_vehicle_status (auth_uid st) now new_id (f_status fd) (f_notes fd) d1 of
                  Inl e \<Rightarrow> (Some e, d1)
                | Inr d2 \<Rightarrow> (None, d2))))"

text \<open>
  The handler tests none of the side fields. The form marks the officer select and the
  location input \<^verbatim>\<open>required\<close> when the status calls for them, and it is the browser
  that withholds the submit event while a required control is empty: no function of the
  repository takes part in that.
\<close>

section \<open>The vehicle tab of the settings page\<close>

text \<open>\<^verbatim>\<open>interface Vehicle\<close> and the \<^verbatim>\<open>newVehicle\<close> form state of the settings page.\<close>

record settings_vehicle =
  sv_id :: uuid
  sv_unit_number :: string
  sv_make :: string
  sv_model :: string
  sv_year :: int
  sv_status :: vehicle_status

record newVehicle =
  nv_unit_number :: string
  nv_make :: string
  nv_model :: string
  model_year :: int

definition handleCreateVehicle ::
    "AuthState \<Rightarrow> uuid \<Rightarrow> newVehicle \<Rightarrow> db \<Rightarrow> error option \<times> db" where
  "handleCreateVehicle st new_id nv d =
     (case insert_vehicle (auth_uid st)
             \<lparr>v_id = new_id,
              v_unit_number = nv_unit_number nv,
              v_make = nv_make nv,
              v_model = nv_model nv,
              v_year = model_year nv,
              v_status = Available,
              assigned_to = column_default_null,
              current_location = column_default_null,
              v_notes = column_default_null\<rparr> d of
        Inl e \<Rightarrow> (Some e, d)
      | Inr d' \<Rightarrow> (None, d'))"

text \<open>
  \<^verbatim>\<open>handleUpdateVehicle\<close> gets the row as edited in the table's inline inputs and
  writes its unit number, make, model and year.
\<close>

definition handleUpdateVehicle :: "AuthState \<Rightarrow> settings_vehicle \<Rightarrow> db \<Rightarrow> db" where
  "handleUpdateVehicle st vehicle d =
     update_vehicle (auth_uid st) (sv_id vehicle)
       (\<lambda>r. r\<lparr>v_unit_number := sv_unit_number vehicle,
                v_make := sv_make vehicle,
                v_model := sv_model vehicle,
                v_year := sv_year vehicle\<rparr>) d"

section \<open>Predicates of the specification\<close>

text \<open>Section 8: the side fields of a vehicle agree with its status.\<close>

definition side_fields_consistent :: "vehicle \<Rightarrow> bool" where
  "side_fields_consistent v \<longleftrightarrow>
     (case v_status v of
        Available \<Rightarrow> assigned_to v = None \<and> current_location v = None \<and> v_notes v = None
      | Assigned \<Rightarrow> assigned_to v \<noteq> None \<and> current_location v = None
      | OutOfService \<Rightarrow> current_location v \<noteq> None \<and> assigned_to v = None)"

text \<open>The two resolution stamps of a work order are set exactly on a completed order.\<close>

definition resolved_ok :: "work_order \<Rightarrow> bool" where
  "resolved_ok r \<longleftrightarrow>
     (resolved_at r \<noteq> None) = (wo_status r = Completed)
     \<and> (resolved_by r \<noteq> None) = (wo_status r = Completed)"





text \<open>The columns that identify a vehicle, and the ones that describe its status.\<close>

definition identity_fields :: "vehicle \<Rightarrow> uuid \<times> string \<times> string \<times> string \<times> int" where
  "identity_fields v = (v_id v, v_unit_number v, v_make v, v_model v, v_year v)"

definition status_fields ::
    "vehicle \<Rightarrow> uuid \<times> vehicle_status \<times> uuid option \<times> string option \<times> string option" where
  "status_fields v = (v_id v, v_status v, assigned_to v, current_location v, v_notes v)"

section \<open>A small fleet\<close>

text \<open>
  The scenario of section 8: an administrator, an officer, unit 7 out of service at
  "Shop A", and the first work order, for its brakes.
\<close>

definition ann :: profile where
  "ann = \<lparr>p_id = ''a1'', p_role = Admin, full_name = ''Ann'', badge_number = None\<rparr>"

definition bob :: profile where
  "bob = \<lparr>p_id = ''b2'', p_role = User, full_name = ''Bob'', badge_number = Some ''17''\<rparr>"

definition ann_signed_in :: AuthState where
  "ann_signed_in = \<lparr>session = Some \<lparr>user_id = ''a1''\<rparr>, profile = Some ann, isAdmin = True\<rparr>"

definition bob_signed_in :: AuthState where
  "bob_signed_in = \<lparr>session = Some \<lparr>user_id = ''b2''\<rparr>, profile = Some bob, isAdmin = False\<rparr>"

definition unit7 :: vehicle where
  "unit7 = \<lparr>v_id = ''v1'', v_unit_number = ''7'', v_make = ''Ford'', v_model = ''Explorer'',
            v_year = 2020, v_status = OutOfService, assigned_to = None,
            current_location = Some ''Shop A'', v_notes = Some ''brakes''\<rparr>"

definition brake_order :: work_order where
  "brake_order = \<lparr>wo_id = ''w1'', wo_vehicle_id = ''v1'', created_by = ''b2'',
                  wo_status = Pending, description = ''Brake issue'', wo_priority = High,
                  wo_location = ''Shop A'', mileage = ''52000'', resolved_at = None,
                  resolved_by = None, resolution_notes = None, created_at = ''t0'',
                  updated_at = ''t0'', work_order_number = Some 1\<rparr>"

definition fleet :: db where
  "fleet = \<lparr>profiles = [ann, bob], vehicles = [unit7], vehicle_status_history = [],
            work_orders = [brake_order]\<rparr>"

text \<open>
  Tables at the edges of the numbering: one with an order that has no number, one whose
  order has the last number before \<open>2 ^ 53\<close>, and one whose order has the number \<open>2 ^ 53\<close>.
\<close>

definition legacy_order :: work_order where
  "legacy_order = brake_order\<lparr>wo_id := ''w0'', work_order_number := None\<rparr>"

definition legacy_fleet :: db where
  "legacy_fleet = fleet\<lparr>work_orders := [legacy_order, brake_order]\<rparr>"

definition last_exact_fleet :: db where
  "last_exact_fleet =
     fleet\<lparr>work_orders := [brake_order\<lparr>work_order_number := Some 9007199254740991\<rparr>]\<rparr>"

definition inexact_fleet :: db where
  "inexact_fleet =
     fleet\<lparr>work_orders := [brake_order\<lparr>work_order_number := Some 9007199254740992\<rparr>]\<rparr>"

text \<open>The brake order as listed after it was cancelled at \<open>t1\<close> with the note "duplicate".\<close>

definition cancelled_brake_order :: work_order where
  "cancelled_brake_order =
     brake_order\<lparr>wo_status := Cancelled, resolution_notes := Some ''duplicate'',
                 updated_at := ''t1''\<rparr>"

definition brake_form :: wo_formData where
  "brake_form = \<lparr>fd_description = ''Brake issue'', fd_priority = High,
                 fd_location = ''Shop A'', fd_mileage = ''52000''\<rparr>"

definition assign_nobody :: formData where
  "assign_nobody = \<lparr>f_unit_number = ''7'', f_make = ''Ford'', f_model = ''Explorer'',
                    f_year = 2020, f_status = Assigned, f_assigned_to = [],
                    f_current_location = [], f_notes = []\<rparr>"

section \<open>Facts about the policies and the backend operations\<close>

lemma permits_Vehicles_write:
  "c \<noteq> Select \<Longrightarrow>
     permits ps caller Vehicles c rid = (\<exists>uid. caller = Some uid \<and> is_admin ps uid)"
  by (cases caller; cases c) (simp_all add: permits_def policies_def applies_def)

lemma permits_WorkOrders_Update:
  "permits ps caller WorkOrders Update rid = (\<exists>uid. caller = Some uid \<and> is_admin ps uid)"
  by (cases caller) (simp_all add: permits_def policies_def applies_def)

lemma permits_signed_in:
  "permits ps (Some uid) Vehicles Select rid"
  "permits ps (Some uid) VehicleStatusHistory Insert rid"
  "permits ps (Some uid) WorkOrders Insert rid"
  "permits ps (Some uid) WorkOrders Select rid"
  by (simp_all add: permits_def policies_def applies_def)

lemma is_admin_iff: "is_admin ps uid \<longleftrightarrow> (\<exists>p \<in> set ps. p_id p = uid \<and> p_role p = Admin)"
  by (simp add: is_admin_def list_ex_iff)

lemma update_rows_none: "(\<And>r. r \<in> set rows \<Longrightarrow> \<not> sel r) \<Longrightarrow> update_rows sel f rows = rows"
  by (induction rows) (simp_all add: update_rows_def)

lemma signed_in:
  assumes "session st = Some s" "user_id s \<noteq> []"
  shows "session_user_id st = Some (user_id s)" "auth_uid st = Some (user_id s)"
  using assms by (simp_all add: session_user_id_def auth_uid_def)

section \<open>Facts about work-order numbering\<close>

lemma significand_shift_small: "a < 2 ^ 53 \<Longrightarrow> significand_shift a = 0"
  by (simp add: significand_shift.simps)

lemma significand_shift_large:
  "\<not> a < 2 ^ 53 \<Longrightarrow> significand_shift a = Suc (significand_shift (a div 2))"
  by (subst significand_shift.simps) simp

lemma round_to_double_exact:
  assumes "\<bar>n\<bar> \<le> 2 ^ 53"
  shows "round_to_double n = Finite n"
proof (cases "\<bar>n\<bar> < 2 ^ 53")
  case True
  then have a: "nat \<bar>n\<bar> < 2 ^ 53" by (simp add: nat_less_iff)
  have "(2::nat) ^ 53 < 2 ^ 1024" by simp
  with a have b: "\<not> 2 ^ 1024 \<le> nat \<bar>n\<bar>" by linarith
  have "sgn n * \<bar>n\<bar> = n" by (simp add: sgn_if)
  then show ?thesis
    using b by (simp add: round_to_double_def significand_shift_small [OF a] Let_def)
next
  case False
  with assms have n: "\<bar>n\<bar> = 2 ^ 53" by simp
  then have a: "nat \<bar>n\<bar> = 2 ^ 53" by (simp add: nat_eq_iff)
  have s: "significand_shift 9007199254740992 = Suc 0"
    by (simp add: significand_shift_large significand_shift_small)
  have "sgn n * \<bar>n\<bar> = n" by (simp add: sgn_if)
  then show ?thesis
    by (simp add: round_to_double_def a s n Let_def)
qed

lemma select_work_orders_signed_in: "select_work_orders (Some uid) d = work_orders d"
  by (simp add: select_work_orders_def permits_signed_in)

lemma sorted_last_Max:
  assumes "sorted (map f ys)" "ys \<noteq> []"
  shows "f (last ys) = Max (f ` set ys)"
proof -
  from assms(2) obtain zs x where ys: "ys = zs @ [x]"
    by (cases ys rule: rev_cases) auto
  with assms(1) have "\<forall>z \<in> set zs. f z \<le> f x"
    by (simp add: sorted_append)
  then have "Max (f ` set ys) = f x"
    unfolding ys by (intro Max_eqI) auto
  then show ?thesis by (simp add: ys)
qed

lemma room_for_numbered:
  assumes "room_for k rows" "r \<in> set rows"
  shows "\<exists>n. work_order_number r = Some n \<and> - (2 ^ 53) < n \<and> n + k \<le> 2 ^ 53"
  using assms by (auto simp: room_for_def list_all_iff split: option.splits)

lemma numbers_numbered:
  assumes "room_for k rows"
  shows "numbers rows = map (\<lambda>r. the (work_order_number r)) rows"
proof -
  have "filter (\<lambda>r. work_order_number r \<noteq> None) rows = rows"
    using room_for_numbered [OF assms] by (auto intro: filter_True)
  then show ?thesis
    by (simp add: numbers_def List.map_filter_def comp_def)
qed

lemma order_by_number_desc_numbered:
  assumes "room_for k rows"
  shows "order_by_number_desc rows = rev (sort_key (\<lambda>r. the (work_order_number r)) rows)"
proof -
  have "filter (\<lambda>r. work_order_number r \<noteq> None) rows = rows"
    using room_for_numbered [OF assms] by (auto intro: filter_True)
  moreover have "filter (\<lambda>r. work_order_number r = None) rows = []"
    using room_for_numbered [OF assms] by (auto simp: filter_empty_conv)
  ultimately show ?thesis by (simp add: order_by_number_desc_def)
qed

lemma newWorkOrderNumber_Max:
  assumes "room_for k (work_orders d)" "1 \<le> k"
  shows "newWorkOrderNumber (Some uid) d =
     Finite (if work_orders d = [] then 1 else Max (set (numbers (work_orders d))) + 1)"
proof (cases "work_orders d = []")
  case True
  have "round_to_double 1 = Finite 1" by (rule round_to_double_exact) simp
  with True show ?thesis
    by (simp add: newWorkOrderNumber_def lastWorkOrderNumber_def lastWorkOrder_def
        select_work_orders_signed_in order_by_number_desc_def)
next
  case False
  define f :: "work_order \<Rightarrow> int" where "f = (\<lambda>r. the (work_order_number r))"
  define ys where "ys = sort_key f (work_orders d)"
  have ne: "ys \<noteq> []" using False by (auto simp: ys_def dest: arg_cong [where f = length])
  have mem: "last ys \<in> set (work_orders d)"
    using last_in_set [OF ne] by (simp add: ys_def)
  from room_for_numbered [OF assms(1) mem] obtain n where
    n: "work_order_number (last ys) = Some n" "- (2 ^ 53) < n" "n + k \<le> 2 ^ 53"
    by blast
  have "f (last ys) = Max (f ` set (work_orders d))"
    using sorted_last_Max [of f ys] ne by (simp add: ys_def)
  then have m: "n = Max (set (numbers (work_orders d)))"
    using n(1) by (simp add: numbers_numbered [OF assms(1)] f_def)
  have t: "take (Suc 0) (rev ys) = [last ys]"
    using ne by (cases ys rule: rev_cases) auto
  have e1: "round_to_double n = Finite n"
    using n(2,3) assms(2) by (intro round_to_double_exact) simp
  have e2: "round_to_double (n + 1) = Finite (n + 1)"
    using n(2,3) assms(2) by (intro round_to_double_exact) simp
  have "newWorkOrderNumber (Some uid) d = Finite (n + 1)"
    by (simp add: newWorkOrderNumber_def lastWorkOrderNumber_def lastWorkOrder_def
        select_work_orders_signed_in order_by_number_desc_numbered [OF assms(1)]
        f_def [symmetric] ys_def [symmetric] t n(1) e1 e2)
  then show ?thesis using False m by simp
qed

lemma WorkOrderModal_handleSubmit_signed_in:
  assumes "session st = Some s" "user_id s \<noteq> []"
  shows "WorkOrderModal_handleSubmit st now new_id vehicleId fd d =
     (None, d\<lparr>work_orders := work_orders d @
        [\<lparr>wo_id = new_id, wo_vehicle_id = vehicleId, created_by = user_id s,
          wo_status = Pending, description = fd_description fd,
          wo_priority = fd_priority fd, wo_location = fd_location fd,
          mileage = fd_mileage fd, resolved_at = None, resolved_by = None,
          resolution_notes = None, created_at = now, updated_at = now,
          work_order_number = to_json (newWorkOrderNumber (Some (user_id s)) d)\<rparr>]\<rparr>)"
  by (simp add: WorkOrderModal_handleSubmit_def signed_in [OF assms] insert_work_order_def
      permits_signed_in work_orders_status_default_def column_default_null_def)

lemma room_for_after_creation:
  assumes "room_for (1 + k) rows" "0 \<le> k"
    "m = (if rows = [] then 1 else Max (set (numbers rows)) + 1)"
    "work_order_number row = Some m"
  shows "room_for k (rows @ [row])"
    and "\<forall>x \<in> set (numbers rows). x < m"
proof -
  have old: "\<exists>n. work_order_number r = Some n \<and> - (2 ^ 53) < n \<and> n + (1 + k) \<le> 2 ^ 53"
    if "r \<in> set rows" for r
    using room_for_numbered [OF assms(1) that] .
  have nums: "numbers rows = map (\<lambda>r. the (work_order_number r)) rows"
    by (rule numbers_numbered [OF assms(1)])
  show lt: "\<forall>x \<in> set (numbers rows). x < m"
  proof
    fix x assume x: "x \<in> set (numbers rows)"
    then have "rows \<noteq> []" by (auto simp: nums)
    moreover have "x \<le> Max (set (numbers rows))" using x by (intro Max_ge) auto
    ultimately show "x < m" by (simp add: assms(3))
  qed
  have bound: "- (2 ^ 53) < m \<and> m + k \<le> 2 ^ 53"
  proof (cases "rows = []")
    case True
    with assms(1,2) show ?thesis by (simp add: assms(3) room_for_def)
  next
    case False
    then have "Max (set (numbers rows)) \<in> set (numbers rows)"
      by (intro Max_in) (auto simp: nums)
    then obtain r where r: "r \<in> set rows" "Max (set (numbers rows)) = the (work_order_number r)"
      by (auto simp: nums)
    from old [OF r(1)] r(2) False show ?thesis by (auto simp: assms(3))
  qed
  have "k \<le> 2 ^ 53" using assms(1,2) by (simp add: room_for_def)
  moreover have "case work_order_number r of None \<Rightarrow> False
      | Some n \<Rightarrow> - (2 ^ 53) < n \<and> n + k \<le> 2 ^ 53" if "r \<in> set rows" for r
    using old [OF that] assms(2) by auto
  ultimately show "room_for k (rows @ [row])"
    using bound by (simp add: room_for_def list_all_iff assms(4))
qed

lemma create_all_numbers:
  assumes "session st = Some s" "user_id s \<noteq> []"
  shows "room_for (int (length reqs)) (work_orders d) \<Longrightarrow>
     \<exists>news ns. work_orders (create_all st reqs d) = work_orders d @ news
       \<and> length ns = length reqs
       \<and> map work_order_number news = map Some ns
       \<and> sorted_wrt (<) ns
       \<and> (\<forall>x \<in> set (numbers (work_orders d)). \<forall>n \<in> set ns. x < n)"
proof (induction reqs arbitrary: d)
  case Nil
  then show ?case by simp
next
  case (Cons req reqs)
  obtain now new_id vehicleId fd where req: "req = (now, new_id, vehicleId, fd)"
    by (cases req) auto
  define k where "k = int (length reqs)"
  have room: "room_for (1 + k) (work_orders d)" using Cons.prems by (simp add: k_def)
  define m where "m = (if work_orders d = [] then 1 else Max (set (numbers (work_orders d))) + 1)"
  have new: "newWorkOrderNumber (Some (user_id s)) d = Finite m"
    using newWorkOrderNumber_Max [OF room, of "user_id s"] by (simp add: m_def k_def)
  define row where "row = \<lparr>wo_id = new_id, wo_vehicle_id = vehicleId, created_by = user_id s,
          wo_status = Pending, description = fd_description fd,
          wo_priority = fd_priority fd, wo_location = fd_location fd,
          mileage = fd_mileage fd, resolved_at = None, resolved_by = None,
          resolution_notes = None, created_at = now, updated_at = now,
          work_order_number = Some m\<rparr>"
  define d1 where "d1 = d\<lparr>work_orders := work_orders d @ [row]\<rparr>"
  have step: "create_all st (req # reqs) d = create_all st reqs d1"
    by (simp add: req WorkOrderModal_handleSubmit_signed_in [OF assms] d1_def row_def new)
  have rm: "work_order_number row = Some m" by (simp add: row_def)
  note after = room_for_after_creation [OF room _ m_def rm]
  have room1: "room_for (int (length reqs)) (work_orders d1)"
    using after(1) by (simp add: d1_def k_def)
  have lt: "\<forall>x \<in> set (numbers (work_orders d)). x < m"
    using after(2) by (simp add: k_def)
  from Cons.IH [OF room1] obtain news ns where
    n: "work_orders (create_all st reqs d1) = work_orders d1 @ news"
       "length ns = length reqs"
       "map work_order_number news = map Some ns"
       "sorted_wrt (<) ns"
       "\<forall>x \<in> set (numbers (work_orders d1)). \<forall>n \<in> set ns. x < n"
    by blast
  have nums1: "set (numbers (work_orders d1)) = insert m (set (numbers (work_orders d)))"
    by (simp add: d1_def numbers_def List.map_filter_def rm)
  have "work_orders (create_all st (req # reqs) d) = work_orders d @ (row # news)"
    unfolding step n(1) by (simp add: d1_def)
  moreover have "length (m # ns) = length (req # reqs)" by (simp add: n(2))
  moreover have "map work_order_number (row # news) = map Some (m # ns)"
    by (simp add: n(3) rm)
  moreover have "sorted_wrt (<) (m # ns)"
    using n(4,5) by (simp add: nums1)
  moreover have "\<forall>x \<in> set (numbers (work_orders d)). \<forall>n \<in> set (m # ns). x < n"
    using n(5) lt by (auto simp: nums1)
  ultimately show ?case by blast
qed

lemma bob_signed_in_session:
  "session bob_signed_in = Some \<lparr>user_id = ''b2''\<rparr>"
  "user_id \<lparr>user_id = ''b2''\<rparr> \<noteq> []"
  by (simp_all add: bob_signed_in_def)

lemmas numbering_eval =
  WorkOrderModal_handleSubmit_signed_in [OF bob_signed_in_session]
  newWorkOrderNumber_def lastWorkOrderNumber_def lastWorkOrder_def
  select_work_orders_signed_in order_by_number_desc_def round_to_double_def
  significand_shift_large significand_shift_small Let_def

lemma creation_in_legacy_fleet:
  "map work_order_number (work_orders (snd
      (WorkOrderModal_handleSubmit bob_signed_in ''t1'' ''w2'' ''v1'' brake_form legacy_fleet)))
     = [None, Some 1, Some 1]"
  by (simp add: numbering_eval legacy_fleet_def legacy_order_def brake_order_def)

lemma creation_in_inexact_fleet:
  "map work_order_number (work_orders (snd
      (WorkOrderModal_handleSubmit bob_signed_in ''t1'' ''w2'' ''v1'' brake_form inexact_fleet)))
     = [Some 9007199254740992, Some 9007199254740992]"
  by (simp add: numbering_eval inexact_fleet_def brake_order_def)

lemma creation_in_fleet:
  "map work_order_number (work_orders (snd
      (WorkOrderModal_handleSubmit bob_signed_in ''t1'' ''w2'' ''v1'' brake_form fleet)))
     = [Some 1, Some 2]"
  by (simp add: numbering_eval fleet_def brake_order_def)

lemma created_numbers_fleet:
  "created_numbers bob_signed_in
     [(''t1'', ''w2'', ''v1'', brake_form), (''t2'', ''w3'', ''v1'', brake_form)] fleet
   = [Some 2, Some 3]"
  by (simp add: created_numbers_def numbering_eval fleet_def brake_order_def)

lemma created_numbers_legacy_fleet:
  "created_numbers bob_signed_in
     [(''t1'', ''w2'', ''v1'', brake_form), (''t2'', ''w3'', ''v1'', brake_form)] legacy_fleet
   = [Some 1, Some 1]"
  by (simp add: created_numbers_def numbering_eval legacy_fleet_def legacy_order_def
      brake_order_def)

lemma created_numbers_last_exact_fleet:
  "created_numbers bob_signed_in
     [(''t1'', ''w2'', ''v1'', brake_form), (''t2'', ''w3'', ''v1'', brake_form)]
     last_exact_fleet
   = [Some 9007199254740992, Some 9007199254740992]"
  by (simp add: created_numbers_def numbering_eval last_exact_fleet_def brake_order_def)

lemma room_in_fleet: "room_for 1 (work_orders fleet)" "room_for (int (length [a, b])) (work_orders fleet)"
  by (simp_all add: room_for_def fleet_def brake_order_def)

section \<open>Facts about updates\<close>

lemma set_update_rows:
  "set (update_rows sel f rows) = (\<lambda>r. if sel r then f r else r) ` set rows"
  by (simp add: update_rows_def)

lemma map_update_rows:
  "(\<And>r. r \<in> set rows \<Longrightarrow> g (f r) = g r) \<Longrightarrow> map g (update_rows sel f rows) = map g rows"
  by (induction rows) (simp_all add: update_rows_def)


lemma admin_permits:
  assumes "is_admin ps uid"
  shows "permits ps (Some uid) WorkOrders Update rid" "permits ps (Some uid) Vehicles Update rid"
    "permits ps (Some uid) Vehicles Insert rid"
  using assms by (simp_all add: permits_WorkOrders_Update permits_Vehicles_write)

lemma status_of_Completed: "(status_of t = Completed) = (t = completed)"
  by (cases t) simp_all

lemma work_orders_handleUpdateStatus:
  assumes "session st = Some s" "user_id s \<noteq> []" "is_admin (profiles d) (user_id s)"
  shows "work_orders (handleUpdateStatus st now (Some sel) updateNotes newStatus d)
      = update_rows (\<lambda>r. wo_id r = wo_id sel)
          (status_update now (Some (user_id s)) newStatus updateNotes) (work_orders d)"
  by (simp add: handleUpdateStatus_def update_work_order_def signed_in [OF assms(1,2)]
      admin_permits [OF assms(3)])

lemma work_orders_handleCompleteWorkOrder:
  assumes "session st = Some s" "user_id s \<noteq> []" "is_admin (profiles d) (user_id s)"
  shows "work_orders (handleCompleteWorkOrder st now workOrder d)
      = update_rows (\<lambda>r. wo_id r = wo_id workOrder) (complete_update now (Some (user_id s)))
          (work_orders d)"
  by (simp add: handleCompleteWorkOrder_def update_vehicle_def update_work_order_def
      signed_in [OF assms(1,2)] admin_permits [OF assms(3)])

lemma work_orders_not_admin:
  assumes "session st = Some s" "user_id s \<noteq> []" "\<not> is_admin (profiles d) (user_id s)"
  shows "work_orders (handleUpdateStatus st now (Some sel) updateNotes newStatus d)
           = work_orders d"
    and "work_orders (handleCompleteWorkOrder st now workOrder d) = work_orders d"
  using assms(3)
  by (simp_all add: handleUpdateStatus_def handleCompleteWorkOrder_def update_work_order_def
      update_vehicle_def signed_in [OF assms(1,2)] permits_WorkOrders_Update update_rows_none)

lemma resolved_ok_status_update: "resolved_ok (status_update now (Some u) t notes r)"
  by (cases t) (simp_all add: resolved_ok_def status_update_def)

lemma resolved_ok_complete_update: "resolved_ok (complete_update now (Some u) r)"
  by (simp add: resolved_ok_def complete_update_def)

lemma vehicleData_consistent:
  "side_fields_consistent
     \<lparr>v_id = i, v_unit_number = vd_unit_number (vehicleData fd), v_make = vd_make (vehicleData fd),
      v_model = vd_model (vehicleData fd), v_year = vd_year (vehicleData fd),
      v_status = vd_status (vehicleData fd), assigned_to = vd_assigned_to (vehicleData fd),
      current_location = vd_current_location (vehicleData fd),
      v_notes = vd_notes (vehicleData fd)\<rparr>"
  by (cases "f_status fd") (simp_all add: side_fields_consistent_def vehicleData_def)

lemma complete_brake_order:
  "map wo_status (work_orders (handleCompleteWorkOrder ann_signed_in ''t1'' brake_order fleet))
     = [Completed]
   \<and> map resolved_at (work_orders (handleCompleteWorkOrder ann_signed_in ''t1'' brake_order fleet))
     = [Some ''t1'']
   \<and> map resolved_by (work_orders (handleCompleteWorkOrder ann_signed_in ''t1'' brake_order fleet))
     = [Some ''a1'']
   \<and> map v_status (vehicles (handleCompleteWorkOrder ann_signed_in ''t1'' brake_order fleet))
     = [Available]"
  by (simp add: handleCompleteWorkOrder_def update_work_order_def update_vehicle_def
      update_rows_def auth_uid_def session_user_id_def complete_update_def
      ann_signed_in_def fleet_def brake_order_def unit7_def permits_WorkOrders_Update
      permits_Vehicles_write is_admin_def ann_def bob_def)

lemma mark_brake_order_completed:
  "map wo_status (work_orders
      (handleUpdateStatus ann_signed_in ''t1'' (Some brake_order) ''pads replaced'' completed fleet))
     = [Completed]
   \<and> map resolved_by (work_orders
      (handleUpdateStatus ann_signed_in ''t1'' (Some brake_order) ''pads replaced'' completed fleet))
     = [Some ''a1'']
   \<and> map resolution_notes (work_orders
      (handleUpdateStatus ann_signed_in ''t1'' (Some brake_order) ''pads replaced'' completed fleet))
     = [Some ''pads replaced'']"
  by (simp add: handleUpdateStatus_def update_work_order_def update_rows_def auth_uid_def
      ann_signed_in_def fleet_def brake_order_def status_update_def permits_WorkOrders_Update
      is_admin_def ann_def bob_def)

lemma ann_is_admin:
  "session ann_signed_in = Some \<lparr>user_id = ''a1''\<rparr>"
  "user_id \<lparr>user_id = ''a1''\<rparr> \<noteq> []"
  "is_admin (profiles fleet) (user_id \<lparr>user_id = ''a1''\<rparr>)"
  by (simp_all add: ann_signed_in_def fleet_def is_admin_def ann_def)

section \<open>Facts about the status of a work order\<close>


















lemmas page_eval =
  mount_def fetchWorkOrders_def select_work_orders_def dialog_rendered_def status_in_def
  handleUpdateStatus_def handleCompleteWorkOrder_def update_work_order_def update_vehicle_def
  update_rows_def auth_uid_def session_user_id_def status_update_def complete_update_def
  permits_WorkOrders_Update permits_Vehicles_write permits_signed_in is_admin_def
  ann_signed_in_def fleet_def brake_order_def cancelled_brake_order_def unit7_def ann_def
  bob_def


text \<open>
  Outside the runs that keep to the dialog the captured order goes stale: completing the
  order while the dialog is open on it, and then pressing "Mark In Progress" there, takes
  the completed order to in progress, since \<open>handleUpdateStatus\<close> tests no status.
\<close>

lemma stale_dialog_overwrites_completed:
  "status_in (snd (run ann_signed_in
      [(''t1'', ClickUpdateStatus brake_order), (''t2'', ClickCompleteWorkOrder brake_order)]
      (mount ann_signed_in fleet, fleet))) ''w1'' = Some Completed"
  "status_in (snd (run ann_signed_in
      [(''t1'', ClickUpdateStatus brake_order), (''t2'', ClickCompleteWorkOrder brake_order),
       (''t3'', ClickMark in_progress)]
      (mount ann_signed_in fleet, fleet))) ''w1'' = Some InProgress"
  by (simp_all add: page_eval)


section \<open>Facts about the identity of a vehicle\<close>

lemma identity_fields_update_vehicle:
  assumes "\<And>r. identity_fields (f r) = identity_fields r"
  shows "map identity_fields (vehicles (update_vehicle caller vid f d))
      = map identity_fields (vehicles d)"
  by (simp add: update_vehicle_def map_update_rows assms)

lemma identity_fields_update_vehicle_status:
  "update_vehicle_status caller now vid new n d = Inr d' \<Longrightarrow>
     map identity_fields (vehicles d') = map identity_fields (vehicles d)"
  by (auto simp: update_vehicle_status_def insert_status_history_def update_vehicle_def
      map_update_rows identity_fields_def split: option.splits if_splits)

lemma identity_fields_VehicleModal_update:
  "map identity_fields (vehicles (snd (VehicleModal_handleSubmit st now new_id (Some v) fd d)))
     = map identity_fields (vehicles d)"
proof -
  define d1 where "d1 = update_vehicle (auth_uid st) (v_id v)
      (\<lambda>r. r\<lparr>v_status := vd_status (vehicleData fd),
               assigned_to := vd_assigned_to (vehicleData fd),
               current_location := vd_current_location (vehicleData fd),
               v_notes := vd_notes (vehicleData fd)\<rparr>) d"
  have 1: "map identity_fields (vehicles d1) = map identity_fields (vehicles d)"
    unfolding d1_def by (rule identity_fields_update_vehicle) (simp add: identity_fields_def)
  have r: "snd (VehicleModal_handleSubmit st now new_id (Some v) fd d)
      = (if v_status v \<noteq> f_status fd
         then (case update_vehicle_status (auth_uid st) now (v_id v) (f_status fd) (f_notes fd) d1 of
                 Inl e \<Rightarrow> d1 | Inr d2 \<Rightarrow> d2)
         else d1)"
    by (simp add: VehicleModal_handleSubmit_def Let_def d1_def split: sum.splits)
  show ?thesis
    unfolding r using 1
    by (auto split: sum.splits dest: identity_fields_update_vehicle_status)
qed

lemma identity_fields_handleCompleteWorkOrder:
  "map identity_fields (vehicles (handleCompleteWorkOrder st now workOrder d))
     = map identity_fields (vehicles d)"
  by (simp add: handleCompleteWorkOrder_def update_vehicle_def update_work_order_def
      map_update_rows identity_fields_def)

lemma status_fields_handleUpdateVehicle:
  "map status_fields (vehicles (handleUpdateVehicle st sv d)) = map status_fields (vehicles d)"
  by (simp add: handleUpdateVehicle_def update_vehicle_def map_update_rows status_fields_def)

lemma rename_unit7:
  "map v_unit_number (vehicles (handleUpdateVehicle ann_signed_in
        \<lparr>sv_id = ''v1'', sv_unit_number = ''8'', sv_make = ''Ram'', sv_model = ''1500'',
          sv_year = 2021, sv_status = OutOfService\<rparr> fleet)) = [''8'']"
  by (simp add: handleUpdateVehicle_def update_vehicle_def update_rows_def auth_uid_def
      ann_signed_in_def fleet_def unit7_def permits_Vehicles_write is_admin_def ann_def bob_def)

lemma handleSubmit_unchecked:
  "fst (VehicleModal_handleSubmit ann_signed_in ''t1'' ''v2'' (Some unit7) assign_nobody fleet)
     = None"
  "map v_status (vehicles (snd
      (VehicleModal_handleSubmit ann_signed_in ''t1'' ''v2'' (Some unit7) assign_nobody fleet)))
     = [Assigned]"
  "map assigned_to (vehicles (snd
      (VehicleModal_handleSubmit ann_signed_in ''t1'' ''v2'' (Some unit7) assign_nobody fleet)))
     = [Some []]"
  "length (vehicle_status_history (snd
      (VehicleModal_handleSubmit ann_signed_in ''t1'' ''v2'' (Some unit7) assign_nobody fleet)))
     = 1"
  by (simp_all add: VehicleModal_handleSubmit_def vehicleData_def update_vehicle_status_def
      insert_status_history_def update_vehicle_def update_rows_def auth_uid_def
      permits_Vehicles_write permits_signed_in is_admin_def
      ann_signed_in_def assign_nobody_def fleet_def unit7_def ann_def bob_def)

section \<open>Properties of the authentication store\<close>

text \<open>
  Claim C10. The store keeps \<open>isAdmin\<close> true exactly when the current profile is
  non-null and has role admin: the initial store satisfies this, \<open>setProfile p\<close>
  establishes it from any state and for any \<open>p\<close>, null included, \<open>signOut\<close> clears
  session, profile and flag together, \<open>setSession\<close> changes neither profile nor flag,
  and so each of the three operations preserves the invariant.
\<close>

theorem auth_store_invariant:
  "admin_flag_ok useAuthStore
   \<and> admin_flag_ok (setProfile p st)
   \<and> (isAdmin (setProfile p st) \<longleftrightarrow> (\<exists>q. p = Some q \<and> p_role q = Admin))
   \<and> session (signOut st) = None \<and> profile (signOut st) = None \<and> \<not> isAdmin (signOut st)
   \<and> profile (setSession s st) = profile st \<and> isAdmin (setSession s st) = isAdmin st
   \<and> (admin_flag_ok st \<longrightarrow>
        admin_flag_ok (setSession s st) \<and> admin_flag_ok (setProfile p st)
        \<and> admin_flag_ok (signOut st))"
  by (cases p) (simp_all add: admin_flag_ok_def useAuthStore_def setProfile_def signOut_def
      setSession_def)

theorem auth_store_invariant_witness:
  "admin_flag_ok useAuthStore
   \<and> admin_flag_ok (setSession (Some \<lparr>user_id = ''u1''\<rparr>)
        (setProfile (Some \<lparr>p_id = ''u1'', p_role = Admin, full_name = ''Ann'',
                         badge_number = None\<rparr>) useAuthStore))
   \<and> isAdmin (setProfile (Some \<lparr>p_id = ''u1'', p_role = Admin, full_name = ''Ann'',
                         badge_number = None\<rparr>) useAuthStore)
   \<and> \<not> isAdmin (signOut (setProfile (Some \<lparr>p_id = ''u1'', p_role = Admin,
                         full_name = ''Ann'', badge_number = None\<rparr>) useAuthStore))"
  using auth_store_invariant
    [of "Some \<lparr>p_id = ''u1'', p_role = Admin, full_name = ''Ann'', badge_number = None\<rparr>"
        useAuthStore "Some \<lparr>user_id = ''u1''\<rparr>"]
    auth_store_invariant
    [of "Some \<lparr>p_id = ''u1'', p_role = Admin, full_name = ''Ann'', badge_number = None\<rparr>"
        "setProfile (Some \<lparr>p_id = ''u1'', p_role = Admin, full_name = ''Ann'',
           badge_number = None\<rparr>) useAuthStore" "Some \<lparr>user_id = ''u1''\<rparr>"]
  by (simp add: setProfile_def signOut_def)


section \<open>The authorization policy\<close>

text \<open>
  Claim C7. As a function of the caller, the table and the command, the policies let a
  vehicle be inserted, updated or deleted, and a work order be updated, exactly when the
  caller is signed in and the stored role of the caller's profile is admin; every
  signed-in caller may read vehicles and insert status-history and work-order rows. A
  caller who is not an admin changes nothing by a vehicle insert, update or delete or by
  a work-order update: the insert is refused and the others touch no row.
\<close>

theorem policy_admin_gate:
  "(c \<noteq> Select \<longrightarrow>
      permits (profiles d) caller Vehicles c rid
        = (\<exists>uid. caller = Some uid
             \<and> (\<exists>p \<in> set (profiles d). p_id p = uid \<and> p_role p = Admin)))
   \<and> permits (profiles d) caller WorkOrders Update rid
        = (\<exists>uid. caller = Some uid
             \<and> (\<exists>p \<in> set (profiles d). p_id p = uid \<and> p_role p = Admin))
   \<and> permits (profiles d) (Some uid) Vehicles Select rid
   \<and> permits (profiles d) (Some uid) VehicleStatusHistory Insert rid
   \<and> permits (profiles d) (Some uid) WorkOrders Insert rid
   \<and> (\<not> (\<exists>uid. caller = Some uid
             \<and> (\<exists>p \<in> set (profiles d). p_id p = uid \<and> p_role p = Admin)) \<longrightarrow>
        insert_vehicle caller v d = Inl PolicyViolation
        \<and> update_vehicle caller vid f d = d
        \<and> delete_vehicle caller vid d = d
        \<and> update_work_order caller wid g d = d)"
proof -
  have a: "c \<noteq> Select \<longrightarrow>
      permits (profiles d) caller Vehicles c rid
        = (\<exists>uid. caller = Some uid
             \<and> (\<exists>p \<in> set (profiles d). p_id p = uid \<and> p_role p = Admin))"
    by (simp add: permits_Vehicles_write is_admin_iff)
  have b: "permits (profiles d) caller WorkOrders Update rid
        = (\<exists>uid. caller = Some uid
             \<and> (\<exists>p \<in> set (profiles d). p_id p = uid \<and> p_role p = Admin))"
    by (simp add: permits_WorkOrders_Update is_admin_iff)
  have e: "insert_vehicle caller v d = Inl PolicyViolation
        \<and> update_vehicle caller vid f d = d
        \<and> delete_vehicle caller vid d = d
        \<and> update_work_order caller wid g d = d"
    if "\<not> (\<exists>uid. caller = Some uid
             \<and> (\<exists>p \<in> set (profiles d). p_id p = uid \<and> p_role p = Admin))"
  proof -
    from that have n: "\<And>c r. c \<noteq> Select \<Longrightarrow> \<not> permits (profiles d) caller Vehicles c r"
      and m: "\<And>r. \<not> permits (profiles d) caller WorkOrders Update r"
      by (simp_all add: permits_Vehicles_write permits_WorkOrders_Update is_admin_iff)
    show ?thesis
      by (simp add: insert_vehicle_def update_vehicle_def delete_vehicle_def
          update_work_order_def n m update_rows_none)
  qed
  show ?thesis using a b e by (simp add: permits_signed_in)
qed

theorem policy_admin_gate_witness:
  "Update \<noteq> Select
   \<and> \<not> permits (profiles fleet) (Some ''b2'') Vehicles Update ''v1''
   \<and> \<not> permits (profiles fleet) (Some ''b2'') WorkOrders Update ''v1''
   \<and> permits (profiles fleet) (Some ''b2'') WorkOrders Insert ''v1''
   \<and> insert_vehicle (Some ''b2'') unit7 fleet = Inl PolicyViolation
   \<and> update_vehicle (Some ''b2'') ''v1'' id fleet = fleet
   \<and> delete_vehicle (Some ''b2'') ''v1'' fleet = fleet
   \<and> update_work_order (Some ''b2'') ''w1'' (complete_update ''t1'' (Some ''b2'')) fleet
       = fleet"
proof -
  have nb: "\<not> (\<exists>uid. Some ''b2'' = Some uid
             \<and> (\<exists>p \<in> set (profiles fleet). p_id p = uid \<and> p_role p = Admin))"
    by (simp add: fleet_def ann_def bob_def)
  have c: "Update \<noteq> Select" by simp
  show ?thesis
    using policy_admin_gate [of Update fleet "Some ''b2''" "''v1''" "''b2''" unit7 "''v1''" id
      "''w1''" "complete_update ''t1'' (Some ''b2'')"] nb c
    by blast
qed


section \<open>Work-order creation\<close>

text \<open>
  Claim C3, as stated, fails at the edges of the numbering. The number is computed on
  JavaScript numbers from the first row of a descending order. Where an order without a
  number exists, that row comes first and the new order gets 1, whatever the largest
  number is; where the largest number is \<open>2 ^ 53\<close>, adding one gives \<open>2 ^ 53\<close> again.
\<close>

theorem creation_number_counterexample:
  "numbers (work_orders legacy_fleet) = [1]
   \<and> map work_order_number (work_orders (snd
        (WorkOrderModal_handleSubmit bob_signed_in ''t1'' ''w2'' ''v1'' brake_form legacy_fleet)))
       = [None, Some 1, Some 1]
   \<and> numbers (work_orders inexact_fleet) = [9007199254740992]
   \<and> map work_order_number (work_orders (snd
        (WorkOrderModal_handleSubmit bob_signed_in ''t1'' ''w2'' ''v1'' brake_form inexact_fleet)))
       = [Some 9007199254740992, Some 9007199254740992]"
  using creation_in_legacy_fleet creation_in_inexact_fleet
  by (simp add: numbers_def List.map_filter_def legacy_fleet_def legacy_order_def
      inexact_fleet_def brake_order_def)

text \<open>
  Claim C3, amended. In a table where every order has a number and the numbers are
  integers that a double holds exactly, with room for one more, a signed-in user's
  submission of the work-order form succeeds and appends one row; the row's status is
  pending and its number is the largest number in the table plus one. In the empty
  table the number is 1.
\<close>

theorem create_assigns_next_number:
  assumes "session st = Some s" "user_id s \<noteq> []" "room_for 1 (work_orders d)"
  shows "fst (WorkOrderModal_handleSubmit st now new_id vehicleId fd d) = None
    \<and> butlast (work_orders (snd (WorkOrderModal_handleSubmit st now new_id vehicleId fd d)))
        = work_orders d
    \<and> wo_status (last (work_orders (snd (WorkOrderModal_handleSubmit st now new_id vehicleId fd d))))
        = Pending
    \<and> work_order_number
        (last (work_orders (snd (WorkOrderModal_handleSubmit st now new_id vehicleId fd d))))
        = Some (if work_orders d = [] then 1
                else Max (set (numbers (work_orders d))) + 1)"
  using newWorkOrderNumber_Max [OF assms(3), of "user_id s"]
  by (simp add: WorkOrderModal_handleSubmit_signed_in [OF assms(1,2)])

theorem create_assigns_next_number_witness:
  "session bob_signed_in = Some \<lparr>user_id = ''b2''\<rparr> \<and> user_id \<lparr>user_id = ''b2''\<rparr> \<noteq> []
   \<and> room_for 1 (work_orders (fleet\<lparr>work_orders := []\<rparr>))
   \<and> room_for 1 (work_orders fleet)
   \<and> fst (WorkOrderModal_handleSubmit bob_signed_in ''t1'' ''w1'' ''v1'' brake_form
            (fleet\<lparr>work_orders := []\<rparr>)) = None
   \<and> work_order_number (last (work_orders (snd
        (WorkOrderModal_handleSubmit bob_signed_in ''t1'' ''w1'' ''v1'' brake_form
            (fleet\<lparr>work_orders := []\<rparr>))))) = Some 1
   \<and> wo_status (last (work_orders (snd
        (WorkOrderModal_handleSubmit bob_signed_in ''t1'' ''w1'' ''v1'' brake_form
            (fleet\<lparr>work_orders := []\<rparr>))))) = Pending
   \<and> work_order_number (last (work_orders (snd
        (WorkOrderModal_handleSubmit bob_signed_in ''t1'' ''w2'' ''v1'' brake_form fleet))))
       = Some 2"
proof -
  have r0: "room_for 1 (work_orders (fleet\<lparr>work_orders := []\<rparr>))"
    by (simp add: room_for_def)
  have e: "work_orders (fleet\<lparr>work_orders := []\<rparr>) = []" by simp
  have f: "work_orders fleet = [brake_order]" by (simp add: fleet_def)
  have n: "numbers [brake_order] = [1]"
    by (simp add: numbers_def List.map_filter_def brake_order_def)
  show ?thesis
    using create_assigns_next_number [OF bob_signed_in_session r0, of "''t1''" "''w1''" "''v1''"
        brake_form]
      create_assigns_next_number [OF bob_signed_in_session room_in_fleet(1),
        of "''t1''" "''w2''" "''v1''" brake_form]
      bob_signed_in_session r0 room_in_fleet(1)
    by (simp only: e f n) simp
qed

text \<open>
  Claim C8, as stated, fails at the same edges: with an order without a number in the
  table every new order gets 1, and from \<open>2 ^ 53\<close> on the number is repeated.
\<close>

theorem creation_sequence_counterexample:
  "created_numbers bob_signed_in
     [(''t1'', ''w2'', ''v1'', brake_form), (''t2'', ''w3'', ''v1'', brake_form)] legacy_fleet
     = [Some 1, Some 1]
   \<and> created_numbers bob_signed_in
     [(''t1'', ''w2'', ''v1'', brake_form), (''t2'', ''w3'', ''v1'', brake_form)]
     last_exact_fleet
     = [Some 9007199254740992, Some 9007199254740992]"
  using created_numbers_legacy_fleet created_numbers_last_exact_fleet by blast

text \<open>
  Claim C8, amended. In a table where every order has a number and there is room for as
  many orders as are created, the numbers that a signed-in user's creations get one after
  another are strictly increasing in creation order, hence pairwise different, each next
  one greater than the one before, and all of them greater than every number already in
  the table; the rows that were there stay as they were.
\<close>

theorem work_order_numbers_increase:
  assumes "session st = Some s" "user_id s \<noteq> []"
    "room_for (int (length reqs)) (work_orders d)"
  shows "length (created_numbers st reqs d) = length reqs
     \<and> take (length (work_orders d)) (work_orders (create_all st reqs d)) = work_orders d
     \<and> list_all (\<lambda>x. x \<noteq> None) (created_numbers st reqs d)
     \<and> sorted_wrt number_less (created_numbers st reqs d)
     \<and> distinct (created_numbers st reqs d)
     \<and> (\<forall>i. Suc i < length reqs \<longrightarrow>
           number_less (created_numbers st reqs d ! i) (created_numbers st reqs d ! Suc i))
     \<and> (\<forall>r \<in> set (work_orders d). \<forall>x \<in> set (created_numbers st reqs d).
           number_less (work_order_number r) x)"
proof -
  from create_all_numbers [OF assms] obtain news ns where
    n: "work_orders (create_all st reqs d) = work_orders d @ news"
       "length ns = length reqs"
       "map work_order_number news = map Some ns"
       "sorted_wrt (<) ns"
       "\<forall>x \<in> set (numbers (work_orders d)). \<forall>n \<in> set ns. x < n"
    by blast
  have c: "created_numbers st reqs d = map Some ns"
    by (simp add: created_numbers_def n(1,3))
  have 1: "sorted_wrt number_less (map Some ns)"
    using n(4) by (simp add: sorted_wrt_map)
  have 2: "distinct (map Some ns)"
    using n(4) by (simp add: distinct_map strict_sorted_iff)
  have 3: "\<forall>i. Suc i < length reqs \<longrightarrow> number_less (map Some ns ! i) (map Some ns ! Suc i)"
    using n(2,4) by (auto simp: sorted_wrt_iff_nth_less)
  have 4: "\<forall>r \<in> set (work_orders d). \<forall>x \<in> set (map Some ns).
      number_less (work_order_number r) x"
  proof (intro ballI)
    fix r x assume r: "r \<in> set (work_orders d)" and x: "x \<in> set (map Some ns)"
    from room_for_numbered [OF assms(3) r] obtain a where a: "work_order_number r = Some a"
      by blast
    then have "a \<in> set (numbers (work_orders d))"
      using r by (force simp: numbers_numbered [OF assms(3)])
    with n(5) x a show "number_less (work_order_number r) x" by auto
  qed
  have 5: "list_all (\<lambda>x. x \<noteq> None) (map Some ns)" by (simp add: list_all_iff)
  show ?thesis
    unfolding c using 1 2 3 4 5 n(1,2) by simp
qed

theorem work_order_numbers_increase_witness:
  "session bob_signed_in = Some \<lparr>user_id = ''b2''\<rparr> \<and> user_id \<lparr>user_id = ''b2''\<rparr> \<noteq> []
   \<and> room_for
        (int (length [(''t1'', ''w2'', ''v1'', brake_form), (''t2'', ''w3'', ''v1'', brake_form)]))
        (work_orders fleet)
   \<and> created_numbers bob_signed_in
         [(''t1'', ''w2'', ''v1'', brake_form), (''t2'', ''w3'', ''v1'', brake_form)] fleet
       = [Some 2, Some 3]
   \<and> sorted_wrt number_less (created_numbers bob_signed_in
         [(''t1'', ''w2'', ''v1'', brake_form), (''t2'', ''w3'', ''v1'', brake_form)] fleet)"
proof -
  note r = room_in_fleet(2)
      [of "(''t1'', ''w2'', ''v1'', brake_form)" "(''t2'', ''w3'', ''v1'', brake_form)"]
  show ?thesis
    using work_order_numbers_increase [OF bob_signed_in_session r]
      bob_signed_in_session r created_numbers_fleet
    by blast
qed

section \<open>Work-order resolution\<close>

text \<open>
  Claim C1, as stated, fails: \<open>handleUpdateStatus\<close> stores the notes typed in the dialog
  whatever the new status, and stores null when none were typed. An administrator who
  cancels the brake order with the note "duplicate" leaves a cancelled order with
  resolution notes; one who marks it completed without a note leaves a completed order
  with none.
\<close>

theorem update_status_stores_notes_counterexample:
  "map wo_status (work_orders
      (handleUpdateStatus ann_signed_in ''t1'' (Some brake_order) ''duplicate'' cancelled fleet))
     = [Cancelled]
   \<and> map resolution_notes (work_orders
      (handleUpdateStatus ann_signed_in ''t1'' (Some brake_order) ''duplicate'' cancelled fleet))
     = [Some ''duplicate'']
   \<and> map wo_status (work_orders
      (handleUpdateStatus ann_signed_in ''t1'' (Some brake_order) [] completed fleet))
     = [Completed]
   \<and> map resolution_notes (work_orders
      (handleUpdateStatus ann_signed_in ''t1'' (Some brake_order) [] completed fleet))
     = [None]"
  by (simp add: handleUpdateStatus_def update_work_order_def update_rows_def auth_uid_def
      ann_signed_in_def fleet_def brake_order_def status_update_def permits_WorkOrders_Update
      is_admin_def ann_def bob_def)

text \<open>
  Claim C1, amended. For an administrator, \<open>handleUpdateStatus\<close> rewrites the selected
  order: the status becomes the new status, \<open>resolved_at\<close> and \<open>resolved_by\<close> are set
  exactly when the new status is completed and cleared otherwise, and
  \<open>resolution_notes\<close> becomes the notes typed, or null when there are none, whatever the
  new status. That the two stamps are non-null exactly on completed orders is an
  invariant of the table: status updates, completions and creations by a signed-in user,
  administrator or not, keep it.
\<close>

theorem update_status_resolution_fields:
  assumes "session st = Some s" "user_id s \<noteq> []"
  shows "(is_admin (profiles d) (user_id s) \<longrightarrow>
      map wo_id (work_orders (handleUpdateStatus st now (Some sel) updateNotes newStatus d))
         = map wo_id (work_orders d)
      \<and> (\<forall>r \<in> set (work_orders (handleUpdateStatus st now (Some sel) updateNotes newStatus d)).
           wo_id r = wo_id sel \<longrightarrow>
             wo_status r = status_of newStatus
             \<and> (resolved_at r \<noteq> None) = (newStatus = completed)
             \<and> (resolved_by r \<noteq> None) = (newStatus = completed)
             \<and> resolution_notes r = (if updateNotes = [] then None else Some updateNotes)))
   \<and> ((\<forall>r \<in> set (work_orders d). resolved_ok r) \<longrightarrow>
        (\<forall>r \<in> set (work_orders (handleUpdateStatus st now (Some sel) updateNotes newStatus d)).
            resolved_ok r)
        \<and> (\<forall>r \<in> set (work_orders (handleCompleteWorkOrder st now workOrder d)). resolved_ok r)
        \<and> (\<forall>r \<in> set (work_orders
                (snd (WorkOrderModal_handleSubmit st now new_id vehicleId fd d))).
            resolved_ok r))"
proof -
  have stamp: "map wo_id (work_orders (handleUpdateStatus st now (Some sel) updateNotes newStatus d))
         = map wo_id (work_orders d)
      \<and> (\<forall>r \<in> set (work_orders (handleUpdateStatus st now (Some sel) updateNotes newStatus d)).
           wo_id r = wo_id sel \<longrightarrow>
             wo_status r = status_of newStatus
             \<and> (resolved_at r \<noteq> None) = (newStatus = completed)
             \<and> (resolved_by r \<noteq> None) = (newStatus = completed)
             \<and> resolution_notes r = (if updateNotes = [] then None else Some updateNotes))"
    if a: "is_admin (profiles d) (user_id s)"
  proof -
    note u = work_orders_handleUpdateStatus [OF assms a]
    have "map wo_id (work_orders (handleUpdateStatus st now (Some sel) updateNotes newStatus d))
           = map wo_id (work_orders d)"
      unfolding u by (rule map_update_rows) (simp add: status_update_def)
    moreover have
      "\<forall>r \<in> set (work_orders (handleUpdateStatus st now (Some sel) updateNotes newStatus d)).
        wo_id r = wo_id sel \<longrightarrow>
          wo_status r = status_of newStatus
          \<and> (resolved_at r \<noteq> None) = (newStatus = completed)
          \<and> (resolved_by r \<noteq> None) = (newStatus = completed)
          \<and> resolution_notes r = (if updateNotes = [] then None else Some updateNotes)"
      unfolding u set_update_rows by (auto simp: status_update_def)
    ultimately show ?thesis by blast
  qed
  have keep: "(\<forall>r \<in> set (work_orders (handleUpdateStatus st now (Some sel) updateNotes newStatus d)).
            resolved_ok r)
        \<and> (\<forall>r \<in> set (work_orders (handleCompleteWorkOrder st now workOrder d)). resolved_ok r)
        \<and> (\<forall>r \<in> set (work_orders
                (snd (WorkOrderModal_handleSubmit st now new_id vehicleId fd d))).
            resolved_ok r)"
    if inv: "\<forall>r \<in> set (work_orders d). resolved_ok r"
  proof -
    have new: "\<forall>r \<in> set (work_orders
                (snd (WorkOrderModal_handleSubmit st now new_id vehicleId fd d))).
            resolved_ok r"
      using inv by (simp add: WorkOrderModal_handleSubmit_signed_in [OF assms] resolved_ok_def)
    show ?thesis
    proof (cases "is_admin (profiles d) (user_id s)")
      case True
      have "\<forall>r \<in> set (work_orders (handleUpdateStatus st now (Some sel) updateNotes newStatus d)).
            resolved_ok r"
        using inv unfolding work_orders_handleUpdateStatus [OF assms True] set_update_rows
        by (auto simp: resolved_ok_status_update)
      moreover have
        "\<forall>r \<in> set (work_orders (handleCompleteWorkOrder st now workOrder d)). resolved_ok r"
        using inv unfolding work_orders_handleCompleteWorkOrder [OF assms True] set_update_rows
        by (auto simp: resolved_ok_complete_update)
      ultimately show ?thesis using new by blast
    next
      case False
      show ?thesis using inv new by (simp add: work_orders_not_admin [OF assms False])
    qed
  qed
  show ?thesis using stamp keep by blast
qed

theorem update_status_resolution_fields_witness:
  "session ann_signed_in = Some \<lparr>user_id = ''a1''\<rparr>
   \<and> user_id \<lparr>user_id = ''a1''\<rparr> \<noteq> []
   \<and> is_admin (profiles fleet) (user_id \<lparr>user_id = ''a1''\<rparr>)
   \<and> list_all resolved_ok (work_orders fleet)
   \<and> list_all resolved_ok (work_orders
        (handleUpdateStatus ann_signed_in ''t1'' (Some brake_order) ''pads replaced'' completed
           fleet))
   \<and> map resolved_by (work_orders
        (handleUpdateStatus ann_signed_in ''t1'' (Some brake_order) ''pads replaced'' completed
           fleet)) = [Some ''a1'']"
proof -
  have inv: "list_all resolved_ok (work_orders fleet)"
    by (simp add: fleet_def brake_order_def resolved_ok_def)
  then have inv': "\<forall>r \<in> set (work_orders fleet). resolved_ok r"
    by (simp only: list_all_iff)
  have "\<forall>r \<in> set (work_orders
        (handleUpdateStatus ann_signed_in ''t1'' (Some brake_order) ''pads replaced'' completed
           fleet)). resolved_ok r"
    by (rule update_status_resolution_fields [OF ann_is_admin(1,2), of fleet "''t1''" brake_order
        "''pads replaced''" completed brake_order "''w2''" "''v1''" brake_form,
        THEN conjunct2, THEN mp, OF inv', THEN conjunct1])
  then have post: "list_all resolved_ok (work_orders
        (handleUpdateStatus ann_signed_in ''t1'' (Some brake_order) ''pads replaced'' completed
           fleet))"
    by (simp only: list_all_iff)
  show ?thesis
    using ann_is_admin inv post mark_brake_order_completed by blast
qed

section \<open>Completing a work order\<close>

text \<open>
  Claim C5. When an administrator completes a work order, every row of that id (the
  tables keep their rows) gets the status completed, \<open>resolved_at\<close> set to the current
  time and \<open>resolved_by\<close> set to the administrator, and the linked vehicle gets the status
  available.
\<close>

theorem complete_and_free_vehicle:
  assumes "session st = Some s" "user_id s \<noteq> []" "is_admin (profiles d) (user_id s)"
  shows "map wo_id (work_orders (handleCompleteWorkOrder st now workOrder d))
           = map wo_id (work_orders d)
     \<and> map v_id (vehicles (handleCompleteWorkOrder st now workOrder d)) = map v_id (vehicles d)
     \<and> (\<forall>r \<in> set (work_orders (handleCompleteWorkOrder st now workOrder d)).
           wo_id r = wo_id workOrder \<longrightarrow>
             wo_status r = Completed \<and> resolved_at r = Some now
             \<and> resolved_by r = Some (user_id s))
     \<and> (\<forall>v \<in> set (vehicles (handleCompleteWorkOrder st now workOrder d)).
           v_id v = wo_vehicle_id workOrder \<longrightarrow> v_status v = Available)"
proof -
  note perm = admin_permits [OF assms(3)]
  have w: "work_orders (handleCompleteWorkOrder st now workOrder d)
      = update_rows (\<lambda>r. wo_id r = wo_id workOrder) (complete_update now (Some (user_id s)))
          (work_orders d)"
    by (simp add: handleCompleteWorkOrder_def update_vehicle_def update_work_order_def
        signed_in [OF assms(1,2)] perm)
  have v: "vehicles (handleCompleteWorkOrder st now workOrder d)
      = update_rows (\<lambda>r. v_id r = wo_vehicle_id workOrder) (\<lambda>v. v\<lparr>v_status := Available\<rparr>)
          (vehicles d)"
    by (simp add: handleCompleteWorkOrder_def update_vehicle_def update_work_order_def
        signed_in [OF assms(1,2)] perm)
  have 1: "map wo_id (work_orders (handleCompleteWorkOrder st now workOrder d))
           = map wo_id (work_orders d)"
    unfolding w by (rule map_update_rows) (simp add: complete_update_def)
  have 2: "map v_id (vehicles (handleCompleteWorkOrder st now workOrder d)) = map v_id (vehicles d)"
    unfolding v by (rule map_update_rows) simp
  have 3: "\<forall>r \<in> set (work_orders (handleCompleteWorkOrder st now workOrder d)).
           wo_id r = wo_id workOrder \<longrightarrow>
             wo_status r = Completed \<and> resolved_at r = Some now
             \<and> resolved_by r = Some (user_id s)"
    unfolding w set_update_rows by (auto simp: complete_update_def)
  have 4: "\<forall>v \<in> set (vehicles (handleCompleteWorkOrder st now workOrder d)).
           v_id v = wo_vehicle_id workOrder \<longrightarrow> v_status v = Available"
    unfolding v set_update_rows by auto
  show ?thesis using 1 2 3 4 by blast
qed

theorem complete_and_free_vehicle_witness:
  "session ann_signed_in = Some \<lparr>user_id = ''a1''\<rparr>
   \<and> user_id \<lparr>user_id = ''a1''\<rparr> \<noteq> []
   \<and> is_admin (profiles fleet) (user_id \<lparr>user_id = ''a1''\<rparr>)
   \<and> map wo_id (work_orders (handleCompleteWorkOrder ann_signed_in ''t1'' brake_order fleet))
       = map wo_id (work_orders fleet)
   \<and> map wo_status (work_orders (handleCompleteWorkOrder ann_signed_in ''t1'' brake_order fleet))
       = [Completed]
   \<and> map resolved_by (work_orders (handleCompleteWorkOrder ann_signed_in ''t1'' brake_order fleet))
       = [Some ''a1'']
   \<and> map v_status (vehicles (handleCompleteWorkOrder ann_signed_in ''t1'' brake_order fleet))
       = [Available]"
  using complete_and_free_vehicle [OF ann_is_admin, of "''t1''" brake_order]
    ann_is_admin complete_brake_order
  by blast

text \<open>
  Claim C2 does not hold of the code. The vehicle form normalises the side fields
  (\<open>vehicleData_consistent\<close>), but \<open>handleCompleteWorkOrder\<close> writes the vehicle's status
  alone: completing the brake order makes unit 7 available and leaves its location
  "Shop A" and its notes in place.
\<close>

theorem completion_keeps_side_fields:
  "side_fields_consistent unit7
   \<and> map v_status (vehicles (handleCompleteWorkOrder ann_signed_in ''t1'' brake_order fleet))
       = [Available]
   \<and> map current_location
        (vehicles (handleCompleteWorkOrder ann_signed_in ''t1'' brake_order fleet))
       = [Some ''Shop A'']
   \<and> map v_notes (vehicles (handleCompleteWorkOrder ann_signed_in ''t1'' brake_order fleet))
       = [Some ''brakes'']
   \<and> \<not> list_all side_fields_consistent
        (vehicles (handleCompleteWorkOrder ann_signed_in ''t1'' brake_order fleet))"
  by (simp add: handleCompleteWorkOrder_def update_work_order_def update_vehicle_def
      update_rows_def auth_uid_def session_user_id_def
      ann_signed_in_def fleet_def brake_order_def unit7_def permits_WorkOrders_Update
      permits_Vehicles_write is_admin_def ann_def bob_def side_fields_consistent_def)

section \<open>The work-order state machine\<close>







section \<open>What a vehicle update changes\<close>

text \<open>
  Claim C9, as stated, fails: \<open>handleUpdateVehicle\<close> of the settings page writes the unit
  number, make, model and year that the administrator typed into the row.
\<close>

theorem settings_edit_renames_unit_counterexample:
  "map v_unit_number (vehicles fleet) = [''7'']
   \<and> map v_unit_number (vehicles (handleUpdateVehicle ann_signed_in
        \<lparr>sv_id = ''v1'', sv_unit_number = ''8'', sv_make = ''Ram'', sv_model = ''1500'',
          sv_year = 2021, sv_status = OutOfService\<rparr> fleet)) = [''8'']
   \<and> map v_year (vehicles (handleUpdateVehicle ann_signed_in
        \<lparr>sv_id = ''v1'', sv_unit_number = ''8'', sv_make = ''Ram'', sv_model = ''1500'',
          sv_year = 2021, sv_status = OutOfService\<rparr> fleet)) = [2021]"
  by (simp add: handleUpdateVehicle_def update_vehicle_def update_rows_def auth_uid_def
      ann_signed_in_def fleet_def unit7_def permits_Vehicles_write is_admin_def ann_def bob_def)

text \<open>
  Claim C9, amended. An update through the vehicle form, and the update of the linked
  vehicle when a work order is completed, leave the id, unit number, make, model and year
  of every vehicle as they are. The update of the settings page leaves the status, the
  assignee, the location and the notes of every vehicle as they are, and for an
  administrator sets unit number, make, model and year of the edited vehicle to the
  values entered.
\<close>

theorem vehicle_update_frame:
  "map identity_fields (vehicles (snd (VehicleModal_handleSubmit st now new_id (Some v) fd d)))
     = map identity_fields (vehicles d)
   \<and> map identity_fields (vehicles (handleCompleteWorkOrder st now workOrder d))
     = map identity_fields (vehicles d)
   \<and> map status_fields (vehicles (handleUpdateVehicle st sv d)) = map status_fields (vehicles d)
   \<and> ((\<exists>uid. auth_uid st = Some uid \<and> is_admin (profiles d) uid) \<longrightarrow>
        (\<forall>r \<in> set (vehicles (handleUpdateVehicle st sv d)).
           v_id r = sv_id sv \<longrightarrow>
             v_unit_number r = sv_unit_number sv \<and> v_make r = sv_make sv
             \<and> v_model r = sv_model sv \<and> v_year r = sv_year sv))"
proof -
  have "\<forall>r \<in> set (vehicles (handleUpdateVehicle st sv d)).
           v_id r = sv_id sv \<longrightarrow>
             v_unit_number r = sv_unit_number sv \<and> v_make r = sv_make sv
             \<and> v_model r = sv_model sv \<and> v_year r = sv_year sv"
    if "\<exists>uid. auth_uid st = Some uid \<and> is_admin (profiles d) uid"
  proof -
    from that obtain uid where u: "auth_uid st = Some uid" "is_admin (profiles d) uid" by blast
    have "vehicles (handleUpdateVehicle st sv d)
        = update_rows (\<lambda>r. v_id r = sv_id sv)
            (\<lambda>r. r\<lparr>v_unit_number := sv_unit_number sv, v_make := sv_make sv,
                     v_model := sv_model sv, v_year := sv_year sv\<rparr>) (vehicles d)"
      by (simp add: handleUpdateVehicle_def update_vehicle_def u(1) admin_permits [OF u(2)])
    then show ?thesis by (auto simp: set_update_rows)
  qed
  then show ?thesis
    using identity_fields_VehicleModal_update [of st now new_id v fd d]
      identity_fields_handleCompleteWorkOrder [of st now workOrder d]
      status_fields_handleUpdateVehicle [of st sv d]
    by blast
qed

theorem vehicle_update_frame_witness:
  "(\<exists>uid. auth_uid ann_signed_in = Some uid \<and> is_admin (profiles fleet) uid)
   \<and> map status_fields (vehicles (handleUpdateVehicle ann_signed_in
        \<lparr>sv_id = ''v1'', sv_unit_number = ''8'', sv_make = ''Ram'', sv_model = ''1500'',
          sv_year = 2021, sv_status = OutOfService\<rparr> fleet)) = map status_fields (vehicles fleet)
   \<and> map identity_fields (vehicles (handleCompleteWorkOrder ann_signed_in ''t1'' brake_order fleet))
       = map identity_fields (vehicles fleet)
   \<and> map v_unit_number (vehicles (handleUpdateVehicle ann_signed_in
        \<lparr>sv_id = ''v1'', sv_unit_number = ''8'', sv_make = ''Ram'', sv_model = ''1500'',
          sv_year = 2021, sv_status = OutOfService\<rparr> fleet)) = [''8'']"
proof -
  have h: "\<exists>uid. auth_uid ann_signed_in = Some uid \<and> is_admin (profiles fleet) uid"
    by (simp add: auth_uid_def ann_signed_in_def fleet_def is_admin_def ann_def)
  show ?thesis
    using vehicle_update_frame [of ann_signed_in "''t1''" "''v2''" unit7 assign_nobody fleet
        brake_order "\<lparr>sv_id = ''v1'', sv_unit_number = ''8'', sv_make = ''Ram'',
          sv_model = ''1500'', sv_year = 2021, sv_status = OutOfService\<rparr>"]
      h rename_unit7
    by blast
qed

end
